theory Spec2Isabelle
  imports Main "HOL-Library.Char_ord" "HOL-Library.List_Lexorder"
begin

section \<open>Python values used by the data lake manager\<close>

text \<open>
  The development embeds \<^verbatim>\<open>src/src/desafio2/gerenciador_data_lake.py\<close> (class
  \<^verbatim>\<open>GerenciadorDataLake\<close>). Exceptions are values of \<open>erro\<close>; a function that may raise
  returns a sum with the exception on the left.
\<close>

datatype erro =
    FileNotFoundError | FileExistsError | NotADirectoryError | IsADirectoryError
  | ValueError | OverflowError | IndexError | TypeError | JSONDecodeError

text \<open>
  A JSON document. Dictionaries keep insertion order, so an object is an association
  list; Python guarantees that its keys are distinct (\<open>bem_formado\<close> below). Strings are
  sequences of code points below 256. Floating-point numbers are not part of the model.
\<close>

datatype json =
    JNull | JBool bool | JInt int | JStr string
  | JList "json list" | JObj "(string \<times> json) list"

fun bem_formado :: "json \<Rightarrow> bool" where
  "bem_formado JNull = True"
| "bem_formado (JBool b) = True"
| "bem_formado (JInt i) = True"
| "bem_formado (JStr s) = True"
| "bem_formado (JList xs) = (\<forall>x \<in> set xs. bem_formado x)"
| "bem_formado (JObj kvs) = (distinct (map fst kvs) \<and> (\<forall>kv \<in> set kvs. bem_formado (snd kv)))"

text \<open>\<^verbatim>\<open>d[k] = v\<close> and \<^verbatim>\<open>d.update(e)\<close> on an insertion-ordered dictionary.\<close>

definition dict_set :: "(string \<times> 'v) list \<Rightarrow> string \<Rightarrow> 'v \<Rightarrow> (string \<times> 'v) list" where
  "dict_set d k v =
     (if k \<in> fst ` set d then map (\<lambda>kv. if fst kv = k then (k, v) else kv) d
      else d @ [(k, v)])"

definition dict_update :: "(string \<times> 'v) list \<Rightarrow> (string \<times> 'v) list \<Rightarrow> (string \<times> 'v) list" where
  "dict_update d e = foldl (\<lambda>acc kv. dict_set acc (fst kv) (snd kv)) d e"

subsection \<open>Formatting numbers and joining strings\<close>

fun digitos :: "nat \<Rightarrow> string" where
  "digitos n =
     (if n < 10 then [''0123456789'' ! n]
      else digitos (n div 10) @ [''0123456789'' ! (n mod 10)])"

declare digitos.simps [simp del]

definition str_int :: "int \<Rightarrow> string" where
  "str_int i = (if i < 0 then ''-'' @ digitos (nat (- i)) else digitos (nat i))"

text \<open>\<^verbatim>\<open>f"{n:02d}"\<close> and \<^verbatim>\<open>"%04d" % n\<close> for a non-negative \<open>n\<close>.\<close>

definition preencher :: "nat \<Rightarrow> nat \<Rightarrow> string" where
  "preencher w n = replicate (w - length (digitos n)) (CHR ''0'') @ digitos n"

fun juntar :: "string \<Rightarrow> string list \<Rightarrow> string" where
  "juntar sep [] = []"
| "juntar sep [x] = x"
| "juntar sep (x # y # ys) = x @ sep @ juntar sep (y # ys)"

text \<open>\<^verbatim>\<open>s.split(c)\<close> for a one-character separator: the result is never empty.\<close>

fun separar :: "char \<Rightarrow> string \<Rightarrow> string list" where
  "separar c [] = [[]]"
| "separar c (x # xs) =
     (if x = c then [] # separar c xs
      else (case separar c xs of [] \<Rightarrow> [[x]] | w # ws \<Rightarrow> (x # w) # ws))"

definition startswith :: "string \<Rightarrow> string \<Rightarrow> bool" where
  "startswith s pre \<longleftrightarrow> take (length pre) s = pre"

definition endswith :: "string \<Rightarrow> string \<Rightarrow> bool" where
  "endswith s suf \<longleftrightarrow> length suf \<le> length s \<and> drop (length s - length suf) s = suf"

subsection \<open>Serialisation (\<^verbatim>\<open>json.dumps\<close>)\<close>

definition hex2 :: "nat \<Rightarrow> string" where
  "hex2 n = [''0123456789abcdef'' ! (n div 16), ''0123456789abcdef'' ! (n mod 16)]"

text \<open>
  The escapes of \<^verbatim>\<open>json.encoder\<close>: with \<^verbatim>\<open>ensure_ascii\<close> every character outside
  \<^verbatim>\<open>' '..'~'\<close> is escaped, without it only the control characters, the quote and the
  backslash are.
\<close>

definition escapar :: "bool \<Rightarrow> char \<Rightarrow> string" where
  "escapar ascii c =
     (if c = CHR 0x22 then [CHR 0x5C, CHR 0x22]
      else if c = CHR 0x5C then [CHR 0x5C, CHR 0x5C]
      else if c = CHR 0x0A then [CHR 0x5C, CHR ''n'']
      else if c = CHR 0x0D then [CHR 0x5C, CHR ''r'']
      else if c = CHR 0x09 then [CHR 0x5C, CHR ''t'']
      else if c = CHR 0x08 then [CHR 0x5C, CHR ''b'']
      else if c = CHR 0x0C then [CHR 0x5C, CHR ''f'']
      else if (of_char c :: nat) < 32 \<or> (ascii \<and> 126 < (of_char c :: nat))
        then [CHR 0x5C, CHR ''u'', CHR ''0'', CHR ''0''] @ hex2 (of_char c)
      else [c])"

definition aspas :: "bool \<Rightarrow> string \<Rightarrow> string" where
  "aspas ascii s = [CHR 0x22] @ concat (map (escapar ascii) s) @ [CHR 0x22]"

text \<open>
  \<^verbatim>\<open>json.dumps(v, sort_keys=so)\<close> with the default separators and \<^verbatim>\<open>ensure_ascii\<close>.
\<close>

fun dumps :: "bool \<Rightarrow> json \<Rightarrow> string" where
  "dumps so JNull = ''null''"
| "dumps so (JBool b) = (if b then ''true'' else ''false'')"
| "dumps so (JInt i) = str_int i"
| "dumps so (JStr s) = aspas True s"
| "dumps so (JList xs) = ''['' @ juntar '', '' (map (dumps so) xs) @ '']''"
| "dumps so (JObj kvs) =
     ''{'' @ juntar '', ''
        (map (\<lambda>kv. aspas True (fst kv) @ '': '' @ snd kv)
           ((if so then sort_key fst else id) (map (\<lambda>kv. (fst kv, dumps so (snd kv))) kvs)))
     @ ''}''"

text \<open>\<^verbatim>\<open>json.dump(v, f, indent=2, ensure_ascii=False)\<close> at nesting level \<open>n\<close>.\<close>

definition nova_linha :: "nat \<Rightarrow> string" where
  "nova_linha n = CHR 0x0A # replicate (2 * n) (CHR '' '')"

fun dump_indent :: "nat \<Rightarrow> json \<Rightarrow> string" where
  "dump_indent n JNull = ''null''"
| "dump_indent n (JBool b) = (if b then ''true'' else ''false'')"
| "dump_indent n (JInt i) = str_int i"
| "dump_indent n (JStr s) = aspas False s"
| "dump_indent n (JList xs) =
     (if xs = [] then ''[]''
      else ''['' @ nova_linha (Suc n)
        @ juntar ('','' @ nova_linha (Suc n)) (map (dump_indent (Suc n)) xs)
        @ nova_linha n @ '']'')"
| "dump_indent n (JObj kvs) =
     (if kvs = [] then ''{}''
      else ''{'' @ nova_linha (Suc n)
        @ juntar ('','' @ nova_linha (Suc n))
            (map (\<lambda>kv. aspas False (fst kv) @ '': '' @ dump_indent (Suc n) (snd kv)) kvs)
        @ nova_linha n @ ''}'')"

text \<open>Bytes of the UTF-8 encoding of a string of code points below 256.\<close>

definition tam_utf8 :: "string \<Rightarrow> nat" where
  "tam_utf8 s = sum_list (map (\<lambda>c. if (of_char c :: nat) < 128 then 1 else 2) s)"

section \<open>Dates and timestamps\<close>

text \<open>
  A \<^verbatim>\<open>datetime.date\<close> is represented by its proleptic Gregorian ordinal (1 is
  0001-01-01, \<open>MAXORDINAL\<close> is 9999-12-31); dates compare as their ordinals do. The
  functions below are those of the standard module \<^verbatim>\<open>datetime\<close>.
\<close>

type_synonym date = int

definition MAXORDINAL :: int where
  "MAXORDINAL = 3652059"

definition is_leap :: "int \<Rightarrow> bool" where
  "is_leap y \<longleftrightarrow> y mod 4 = 0 \<and> (y mod 100 \<noteq> 0 \<or> y mod 400 = 0)"

definition days_before_year :: "int \<Rightarrow> int" where
  "days_before_year year = (let y = year - 1 in y * 365 + y div 4 - y div 100 + y div 400)"

definition DAYS_IN_MONTH :: "int list" where
  "DAYS_IN_MONTH = [-1, 31, 28, 31, 30, 31, 30, 31, 31, 30, 31, 30, 31]"

definition DAYS_BEFORE_MONTH :: "int list" where
  "DAYS_BEFORE_MONTH = [-1, 0, 31, 59, 90, 120, 151, 181, 212, 243, 273, 304, 334]"

definition days_in_month :: "int \<Rightarrow> int \<Rightarrow> int" where
  "days_in_month y m = (if m = 2 \<and> is_leap y then 29 else DAYS_IN_MONTH ! nat m)"

definition days_before_month :: "int \<Rightarrow> int \<Rightarrow> int" where
  "days_before_month y m = DAYS_BEFORE_MONTH ! nat m + (if m > 2 \<and> is_leap y then 1 else 0)"

definition ymd2ord :: "int \<Rightarrow> int \<Rightarrow> int \<Rightarrow> int" where
  "ymd2ord y m d = days_before_year y + days_before_month y m + d"

text \<open>\<^verbatim>\<open>date(y, m, d)\<close>: a \<^verbatim>\<open>ValueError\<close> unless the triple is a calendar date.\<close>

definition nova_data :: "int \<Rightarrow> int \<Rightarrow> int \<Rightarrow> erro + date" where
  "nova_data y m d =
     (if 1 \<le> y \<and> y \<le> 9999 \<and> 1 \<le> m \<and> m \<le> 12 \<and> 1 \<le> d \<and> d \<le> days_in_month y m
      then Inr (ymd2ord y m d) else Inl ValueError)"

definition ord2ymd :: "int \<Rightarrow> int \<times> int \<times> int" where
  "ord2ymd n0 =
     (let n = n0 - 1;
          n400 = n div 146097; n = n mod 146097;
          n100 = n div 36524; n = n mod 36524;
          n4 = n div 1461; n = n mod 1461;
          n1 = n div 365; n = n mod 365;
          year = n400 * 400 + 1 + n100 * 100 + n4 * 4 + n1
      in if n1 = 4 \<or> n100 = 4 then (year - 1, 12, 31)
         else
           (let leapyear = (n1 = 3 \<and> (n4 \<noteq> 24 \<or> n100 = 3));
                month = (n + 50) div 32;
                preceding = DAYS_BEFORE_MONTH ! nat month + (if month > 2 \<and> leapyear then 1 else 0)
            in if preceding > n
               then (let month' = month - 1;
                         preceding' = preceding
                           - (DAYS_IN_MONTH ! nat month' + (if month' = 2 \<and> leapyear then 1 else 0))
                     in (year, month', n - preceding' + 1))
               else (year, month, n - preceding + 1)))"

definition ano_de :: "date \<Rightarrow> nat" where
  "ano_de d = nat (fst (ord2ymd d))"

definition mes_de :: "date \<Rightarrow> nat" where
  "mes_de d = nat (fst (snd (ord2ymd d)))"

definition dia_de :: "date \<Rightarrow> nat" where
  "dia_de d = nat (snd (snd (ord2ymd d)))"

text \<open>\<^verbatim>\<open>d + timedelta(days=n)\<close>: an \<^verbatim>\<open>OverflowError\<close> outside the range of \<^verbatim>\<open>date\<close>.\<close>

definition mais_dias :: "date \<Rightarrow> int \<Rightarrow> erro + date" where
  "mais_dias d n =
     (if \<bar>n\<bar> > 999999999 then Inl OverflowError
      else if 0 < d + n \<and> d + n \<le> MAXORDINAL then Inr (d + n) else Inl OverflowError)"

definition isoformat_data :: "date \<Rightarrow> string" where
  "isoformat_data d =
     preencher 4 (ano_de d) @ ''-'' @ preencher 2 (mes_de d) @ ''-'' @ preencher 2 (dia_de d)"

text \<open>The value of \<^verbatim>\<open>datetime.now()\<close>, an input of every operation that reads the clock.\<close>

record datetime =
  dt_ano :: nat
  dt_mes :: nat
  dt_dia :: nat
  dt_hora :: nat
  dt_minuto :: nat
  dt_segundo :: nat
  dt_micro :: nat

text \<open>\<^verbatim>\<open>strftime('%Y%m%d_%H%M%S')\<close>, for the four-digit years a clock gives.\<close>

definition carimbo :: "datetime \<Rightarrow> string" where
  "carimbo t =
     preencher 4 (dt_ano t) @ preencher 2 (dt_mes t) @ preencher 2 (dt_dia t) @ ''_''
     @ preencher 2 (dt_hora t) @ preencher 2 (dt_minuto t) @ preencher 2 (dt_segundo t)"

definition isoformat :: "datetime \<Rightarrow> string" where
  "isoformat t =
     preencher 4 (dt_ano t) @ ''-'' @ preencher 2 (dt_mes t) @ ''-'' @ preencher 2 (dt_dia t)
     @ ''T'' @ preencher 2 (dt_hora t) @ '':'' @ preencher 2 (dt_minuto t) @ '':''
     @ preencher 2 (dt_segundo t)
     @ (if dt_micro t = 0 then [] else ''.'' @ preencher 6 (dt_micro t))"

section \<open>Paths and the file system\<close>

text \<open>
  A \<^verbatim>\<open>pathlib.Path\<close> is the list of its parts; an absolute path starts with the part
  \<^verbatim>\<open>/\<close>. \<open>partes\<close> parses a string as \<^verbatim>\<open>PurePosixPath\<close> does (empty components and
  \<^verbatim>\<open>.\<close> are dropped), and \<open>barra\<close> is the operator \<^verbatim>\<open>/\<close>: an absolute right operand
  replaces the left one.
\<close>

type_synonym caminho = "string list"

definition raiz_de :: "string \<Rightarrow> string list" where
  "raiz_de s =
     (if startswith s ''/'' then
        (if length (takeWhile (\<lambda>c. c = CHR ''/'') s) = 2 then [''//''] else [''/''])
      else [])"

definition partes :: "string \<Rightarrow> caminho" where
  "partes s = raiz_de s @ filter (\<lambda>c. c \<noteq> [] \<and> c \<noteq> ''.'') (separar (CHR ''/'') s)"

definition barra :: "caminho \<Rightarrow> string \<Rightarrow> caminho" where
  "barra p s = (if raiz_de s \<noteq> [] then partes s else p @ partes s)"

definition tem_raiz :: "caminho \<Rightarrow> bool" where
  "tem_raiz p \<longleftrightarrow> (case p of [] \<Rightarrow> False | r # _ \<Rightarrow> r = ''/'' \<or> r = ''//'')"

definition str_caminho :: "caminho \<Rightarrow> string" where
  "str_caminho p =
     (if p = [] then ''.''
      else if tem_raiz p then hd p @ juntar ''/'' (tl p)
      else juntar ''/'' p)"

definition nome :: "caminho \<Rightarrow> string" where
  "nome p = (if length p > (if tem_raiz p then 1 else 0) then last p else [])"

text \<open>\<^verbatim>\<open>Path.stem\<close>: the name without its last suffix.\<close>

definition rfind_ponto :: "string \<Rightarrow> nat option" where
  "rfind_ponto s =
     (if CHR ''.'' \<in> set s then Some (length s - 1 - length (takeWhile (\<lambda>c. c \<noteq> CHR ''.'') (rev s)))
      else None)"

definition stem :: "caminho \<Rightarrow> string" where
  "stem p =
     (case rfind_ponto (nome p) of
        None \<Rightarrow> nome p
      | Some i \<Rightarrow> if 0 < i \<and> i < length (nome p) - 1 then take i (nome p) else nome p)"

text \<open>
  A file holds a text; what the manager observes of it is its size in bytes and what
  \<^verbatim>\<open>json.load\<close> makes of it: a document, or a \<^verbatim>\<open>JSONDecodeError\<close>. The file system
  maps paths to nodes, in the order in which the system enumerates them. Symbolic links
  and the component \<^verbatim>\<open>..\<close> are not interpreted.
\<close>

datatype conteudo = TextoJson json | Ilegivel

datatype no = Pasta | Arquivo conteudo nat

type_synonym sa = "(caminho \<times> no) list"

definition eh_raiz :: "caminho \<Rightarrow> bool" where
  "eh_raiz p \<longleftrightarrow> p = [] \<or> p = [''/''] \<or> p = [''//'']"

definition no_em :: "sa \<Rightarrow> caminho \<Rightarrow> no option" where
  "no_em fs p = (if eh_raiz p then Some Pasta else map_of fs p)"

definition existe :: "sa \<Rightarrow> caminho \<Rightarrow> bool" where
  "existe fs p \<longleftrightarrow> no_em fs p \<noteq> None"

definition is_dir :: "sa \<Rightarrow> caminho \<Rightarrow> bool" where
  "is_dir fs p \<longleftrightarrow> no_em fs p = Some Pasta"

fun eh_arquivo :: "no \<Rightarrow> bool" where
  "eh_arquivo Pasta = False"
| "eh_arquivo (Arquivo c n) = True"

fun tamanho :: "no \<Rightarrow> nat" where
  "tamanho Pasta = 0"
| "tamanho (Arquivo c n) = n"

text \<open>
  A well-formed file system: no path twice, no entry for a root, and every entry lies
  in a directory.
\<close>

definition sa_ok :: "sa \<Rightarrow> bool" where
  "sa_ok fs \<longleftrightarrow>
     distinct (map fst fs) \<and>
     (\<forall>e \<in> set fs. \<not> eh_raiz (fst e) \<and> is_dir fs (butlast (fst e)))"

text \<open>Resolving the directories \<open>cs\<close> below \<open>pre\<close>, as every system call on a path does.\<close>

fun andar :: "sa \<Rightarrow> caminho \<Rightarrow> caminho \<Rightarrow> erro option" where
  "andar fs pre [] = None"
| "andar fs pre (c # cs) =
     (case no_em fs (pre @ [c]) of
        None \<Rightarrow> Some FileNotFoundError
      | Some (Arquivo x n) \<Rightarrow> Some NotADirectoryError
      | Some Pasta \<Rightarrow> andar fs (pre @ [c]) cs)"

text \<open>
  \<^verbatim>\<open>p.mkdir(parents=True, exist_ok=True)\<close>: the missing directories are created from the
  top; a file in the way is an error, and then nothing has been created.
\<close>

fun criar_pastas :: "sa \<Rightarrow> caminho \<Rightarrow> caminho \<Rightarrow> erro + sa" where
  "criar_pastas fs pre [] = Inr fs"
| "criar_pastas fs pre (c # cs) =
     (case no_em fs (pre @ [c]) of
        Some Pasta \<Rightarrow> criar_pastas fs (pre @ [c]) cs
      | Some (Arquivo x n) \<Rightarrow> Inl (if cs = [] then FileExistsError else NotADirectoryError)
      | None \<Rightarrow> criar_pastas (fs @ [(pre @ [c], Pasta)]) (pre @ [c]) cs)"

definition mkdir_p :: "sa \<Rightarrow> caminho \<Rightarrow> erro + sa" where
  "mkdir_p fs p = criar_pastas fs [] p"

text \<open>
  \<^verbatim>\<open>open(p, 'w')\<close> followed by \<^verbatim>\<open>json.dump\<close>: the file is created, or an existing file
  of that name is truncated and rewritten.
\<close>

definition escrever :: "sa \<Rightarrow> caminho \<Rightarrow> conteudo \<Rightarrow> nat \<Rightarrow> erro + sa" where
  "escrever fs p c n =
     (case andar fs [] (butlast p) of
        Some e \<Rightarrow> Inl e
      | None \<Rightarrow>
          (case no_em fs p of
             Some Pasta \<Rightarrow> Inl IsADirectoryError
           | Some (Arquivo x m) \<Rightarrow> Inr (map (\<lambda>e. if fst e = p then (p, Arquivo c n) else e) fs)
           | None \<Rightarrow> Inr (fs @ [(p, Arquivo c n)])))"

definition json_dump :: "sa \<Rightarrow> caminho \<Rightarrow> json \<Rightarrow> erro + sa" where
  "json_dump fs p v = escrever fs p (TextoJson v) (tam_utf8 (dump_indent 0 v))"

text \<open>
  \<^verbatim>\<open>d.glob(pat)\<close> for a pattern without separator lists the entries of \<open>d\<close> whose name
  matches; \<^verbatim>\<open>d.rglob(pat)\<close> those of every level below \<open>d\<close>. Both are empty when \<open>d\<close> is
  not a directory.
\<close>

definition glob :: "sa \<Rightarrow> caminho \<Rightarrow> (string \<Rightarrow> bool) \<Rightarrow> (caminho \<times> no) list" where
  "glob fs d pat =
     (if is_dir fs d
      then filter (\<lambda>e. fst e \<noteq> [] \<and> butlast (fst e) = d \<and> pat (last (fst e))) fs
      else [])"

definition abaixo :: "caminho \<Rightarrow> caminho \<Rightarrow> bool" where
  "abaixo d p \<longleftrightarrow> length d < length p \<and> take (length d) p = d"

definition rglob :: "sa \<Rightarrow> caminho \<Rightarrow> (string \<Rightarrow> bool) \<Rightarrow> (caminho \<times> no) list" where
  "rglob fs d pat =
     (if is_dir fs d then filter (\<lambda>e. abaixo d (fst e) \<and> pat (last (fst e))) fs else [])"

definition iterdir :: "sa \<Rightarrow> caminho \<Rightarrow> erro + (caminho \<times> no) list" where
  "iterdir fs d =
     (case no_em fs d of
        None \<Rightarrow> Inl FileNotFoundError
      | Some (Arquivo x n) \<Rightarrow> Inl NotADirectoryError
      | Some Pasta \<Rightarrow> Inr (filter (\<lambda>e. fst e \<noteq> [] \<and> butlast (fst e) = d) fs))"

text \<open>\<^verbatim>\<open>shutil.rmtree(d)\<close>: the directory and everything below it.\<close>

definition rmtree :: "sa \<Rightarrow> caminho \<Rightarrow> erro + sa" where
  "rmtree fs d =
     (case no_em fs d of
        None \<Rightarrow> Inl FileNotFoundError
      | Some (Arquivo x n) \<Rightarrow> Inl NotADirectoryError
      | Some Pasta \<Rightarrow> Inr (filter (\<lambda>e. fst e \<noteq> d \<and> \<not> abaixo d (fst e)) fs))"

section \<open>The data lake manager: storing\<close>

text \<open>
  The attributes of \<^verbatim>\<open>GerenciadorDataLake\<close> are the base path (\<open>base\<close> below, the parts of
  \<^verbatim>\<open>Path(caminho_base)\<close>) and the table of zone directories. The clock \<open>agora\<close> and the
  digest \<open>md5\<close> (\<^verbatim>\<open>hashlib.md5(...).hexdigest()\<close>) are parameters.
\<close>

definition estrutura_pastas :: "(string \<times> string) list" where
  "estrutura_pastas =
     [(''raw'', ''dados_brutos''), (''processed'', ''dados_processados''),
      (''schemas'', ''esquemas''), (''metadata'', ''metadados''),
      (''archive'', ''arquivo''), (''temp'', ''temporario'')]"

definition pasta_de :: "string \<Rightarrow> string" where
  "pasta_de zona = (case map_of estrutura_pastas zona of Some p \<Rightarrow> p | None \<Rightarrow> [])"

definition calcular_hash :: "(string \<Rightarrow> string) \<Rightarrow> json \<Rightarrow> string" where
  "calcular_hash md5 dados = md5 (dumps True dados)"

text \<open>The day directory \<^verbatim>\<open>base / raw / endpoint / ano=Y / mes=MM / dia=DD\<close>.\<close>

definition particao_dia :: "caminho \<Rightarrow> string \<Rightarrow> date \<Rightarrow> caminho" where
  "particao_dia base endpoint d =
     barra (barra (barra (barra (barra base (pasta_de ''raw'')) endpoint)
       (''ano='' @ digitos (ano_de d)))
       (''mes='' @ preencher 2 (mes_de d)))
       (''dia='' @ preencher 2 (dia_de d))"

definition salvar_metadados ::
  "caminho \<Rightarrow> sa \<Rightarrow> string \<Rightarrow> (string \<times> json) list \<Rightarrow> caminho \<Rightarrow> erro option \<times> sa" where
  "salvar_metadados base fs endpoint metadados caminho_arquivo =
     (let caminho_metadados = barra (barra base (pasta_de ''metadata'')) endpoint
      in case mkdir_p fs caminho_metadados of
           Inl e \<Rightarrow> (Some e, fs)
         | Inr fs1 \<Rightarrow>
             (let nome_metadados = ''meta_'' @ stem caminho_arquivo @ ''.json'';
                  arquivo_metadados = barra caminho_metadados nome_metadados;
                  metadados_completos =
                    dict_set (dict_set metadados ''caminho_arquivo''
                                (JStr (str_caminho caminho_arquivo)))
                      ''nome_arquivo'' (JStr (nome caminho_arquivo))
              in case json_dump fs1 arquivo_metadados (JObj metadados_completos) of
                   Inl e \<Rightarrow> (Some e, fs1)
                 | Inr fs2 \<Rightarrow> (None, fs2)))"

definition metadados_de ::
  "(string \<Rightarrow> string) \<Rightarrow> datetime \<Rightarrow> string \<Rightarrow> json \<Rightarrow> date \<Rightarrow> string
     \<Rightarrow> (string \<times> json) list option \<Rightarrow> (string \<times> json) list" where
  "metadados_de md5 agora endpoint dados data_negocio id_loja metadados_adicionais =
     (let metadados =
            [(''endpoint'', JStr endpoint),
             (''data_negocio'', JStr (isoformat_data data_negocio)),
             (''id_loja'', JStr id_loja),
             (''timestamp_ingestao'', JStr (isoformat agora)),
             (''versao_esquema'', JStr ''1.0''),
             (''hash_dados'', JStr (calcular_hash md5 dados)),
             (''tamanho_bytes'', JInt (int (length (dumps False dados))))]
      in case metadados_adicionais of
           None \<Rightarrow> metadados
         | Some extra \<Rightarrow> if extra = [] then metadados else dict_update metadados extra)"

definition caminho_particao_de :: "caminho \<Rightarrow> string \<Rightarrow> date \<Rightarrow> string \<Rightarrow> caminho" where
  "caminho_particao_de base endpoint data_negocio id_loja =
     barra (particao_dia base endpoint data_negocio) (''loja='' @ id_loja)"

definition caminho_arquivo_de ::
  "datetime \<Rightarrow> caminho \<Rightarrow> string \<Rightarrow> date \<Rightarrow> string \<Rightarrow> caminho" where
  "caminho_arquivo_de agora base endpoint data_negocio id_loja =
     barra (caminho_particao_de base endpoint data_negocio id_loja)
       (endpoint @ ''_'' @ id_loja @ ''_'' @ carimbo agora @ ''.json'')"

text \<open>
  \<^verbatim>\<open>armazenar_resposta_api\<close> returns the path of the record file, or raises; the file
  system it leaves behind is the second component in both cases (the handler of the
  source logs and raises again).
\<close>

definition armazenar_resposta_api ::
  "(string \<Rightarrow> string) \<Rightarrow> datetime \<Rightarrow> caminho \<Rightarrow> sa \<Rightarrow> string \<Rightarrow> json \<Rightarrow> date \<Rightarrow> string
     \<Rightarrow> (string \<times> json) list option \<Rightarrow> (erro + string) \<times> sa" where
  "armazenar_resposta_api md5 agora base fs endpoint dados data_negocio id_loja
       metadados_adicionais =
     (let caminho_particao = caminho_particao_de base endpoint data_negocio id_loja
      in case mkdir_p fs caminho_particao of
           Inl e \<Rightarrow> (Inl e, fs)
         | Inr fs1 \<Rightarrow>
             (let caminho_arquivo = caminho_arquivo_de agora base endpoint data_negocio id_loja;
                  metadados = metadados_de md5 agora endpoint dados data_negocio id_loja
                                metadados_adicionais;
                  dados_completos = JObj [(''metadados'', JObj metadados), (''dados'', dados)]
              in case json_dump fs1 caminho_arquivo dados_completos of
                   Inl e \<Rightarrow> (Inl e, fs1)
                 | Inr fs2 \<Rightarrow>
                     (case salvar_metadados base fs2 endpoint metadados caminho_arquivo of
                        (Some e, fs3) \<Rightarrow> (Inl e, fs3)
                      | (None, fs3) \<Rightarrow> (Inr (str_caminho caminho_arquivo), fs3))))"

section \<open>The data lake manager: querying\<close>

text \<open>The patterns \<^verbatim>\<open>*.json\<close> and \<^verbatim>\<open>loja=*\<close> (and the like) of \<^verbatim>\<open>glob\<close>.\<close>

definition casa_json :: "string \<Rightarrow> bool" where
  "casa_json n \<longleftrightarrow> endswith n ''.json''"

definition casa_tudo :: "string \<Rightarrow> bool" where
  "casa_tudo n \<longleftrightarrow> True"

text \<open>
  The body of the \<^verbatim>\<open>try\<close> of \<^verbatim>\<open>_ler_arquivos_pasta\<close> for one entry: opening a
  directory or parsing an unreadable text raises, and so does the assignment
  \<^verbatim>\<open>dados['_caminho_arquivo'] = ...\<close> when the document is not an object.
\<close>

fun ler_arquivo :: "caminho \<times> no \<Rightarrow> erro + json" where
  "ler_arquivo (p, Pasta) = Inl IsADirectoryError"
| "ler_arquivo (p, Arquivo Ilegivel n) = Inl JSONDecodeError"
| "ler_arquivo (p, Arquivo (TextoJson (JObj kvs)) n) =
     Inr (JObj (dict_set kvs ''_caminho_arquivo'' (JStr (str_caminho p))))"
| "ler_arquivo (p, Arquivo (TextoJson v) n) = Inl TypeError"

text \<open>
  The result of a scan is the list of records together with the warnings logged, one
  for every entry skipped.
\<close>

type_synonym leitura = "json list \<times> (caminho \<times> erro) list"

fun ler_entradas :: "(caminho \<times> no) list \<Rightarrow> leitura" where
  "ler_entradas [] = ([], [])"
| "ler_entradas (e # es) =
     (case ler_arquivo e of
        Inr dados \<Rightarrow> (dados # fst (ler_entradas es), snd (ler_entradas es))
      | Inl erro \<Rightarrow> (fst (ler_entradas es), (fst e, erro) # snd (ler_entradas es)))"

definition ler_arquivos_pasta :: "sa \<Rightarrow> caminho \<Rightarrow> leitura" where
  "ler_arquivos_pasta fs caminho_pasta = ler_entradas (glob fs caminho_pasta casa_json)"

definition mais :: "leitura \<Rightarrow> leitura \<Rightarrow> leitura" where
  "mais a b = (fst a @ fst b, snd a @ snd b)"

text \<open>
  One round of the loop of \<^verbatim>\<open>buscar_dados\<close>: the records of one day. An empty
  \<^verbatim>\<open>id_loja\<close> is false in Python, so it searches every store, as \<^verbatim>\<open>None\<close> does.
\<close>

definition ler_dia :: "caminho \<Rightarrow> sa \<Rightarrow> string \<Rightarrow> string option \<Rightarrow> date \<Rightarrow> leitura" where
  "ler_dia base fs endpoint id_loja data_atual =
     (let caminho_particao = particao_dia base endpoint data_atual
      in if existe fs caminho_particao then
           (if id_loja \<noteq> None \<and> id_loja \<noteq> Some [] then
              (let caminho_loja = barra caminho_particao (''loja='' @ the id_loja)
               in if existe fs caminho_loja then ler_arquivos_pasta fs caminho_loja
                  else ([], []))
            else foldl mais ([], [])
                   (map (\<lambda>pasta_loja. ler_arquivos_pasta fs (fst pasta_loja))
                      (glob fs caminho_particao (\<lambda>n. startswith n ''loja=''))))
         else ([], []))"

function buscar_laco ::
  "caminho \<Rightarrow> sa \<Rightarrow> string \<Rightarrow> string option \<Rightarrow> date \<Rightarrow> date \<Rightarrow> leitura \<Rightarrow> erro + leitura" where
  "buscar_laco base fs endpoint id_loja data_fim data_atual resultados =
     (if data_atual \<le> data_fim then
        (case mais_dias data_atual 1 of
           Inl e \<Rightarrow> Inl e
         | Inr proximo \<Rightarrow>
             buscar_laco base fs endpoint id_loja data_fim proximo
               (mais resultados (ler_dia base fs endpoint id_loja data_atual)))
      else Inr resultados)"
  by pat_completeness auto
termination
  by (relation "measure (\<lambda>(base, fs, endpoint, id_loja, data_fim, data_atual, resultados).
        nat (data_fim - data_atual + 1))")
     (auto simp: mais_dias_def split: if_splits)

declare buscar_laco.simps [simp del]

definition buscar_dados ::
  "caminho \<Rightarrow> sa \<Rightarrow> string \<Rightarrow> date \<Rightarrow> date \<Rightarrow> string option \<Rightarrow> erro + leitura" where
  "buscar_dados base fs endpoint data_inicio data_fim id_loja =
     buscar_laco base fs endpoint id_loja data_fim data_inicio ([], [])"

section \<open>The data lake manager: statistics\<close>

text \<open>
  Sizes are reported in megabytes rounded to two decimals,
  \<^verbatim>\<open>round(n / (1024 * 1024), 2)\<close>. The quotient is exact in binary floating point (for
  totals below \<open>2 ^ 53\<close> bytes) and \<^verbatim>\<open>round\<close> rounds the exact value half to even, so
  the result is represented by its number of hundredths.
\<close>

definition arredondar_mb :: "nat \<Rightarrow> nat" where
  "arredondar_mb n =
     (let q = (n * 100) div 1048576; r = (n * 100) mod 1048576
      in if 2 * r > 1048576 \<or> (2 * r = 1048576 \<and> odd q) then q + 1 else q)"

definition arquivos_abaixo :: "sa \<Rightarrow> caminho \<Rightarrow> (string \<Rightarrow> bool) \<Rightarrow> (caminho \<times> no) list" where
  "arquivos_abaixo fs d pat = filter (\<lambda>e. eh_arquivo (snd e)) (rglob fs d pat)"

record info_pasta =
  ip_total_arquivos :: nat
  ip_tamanho_mb :: nat
  ip_caminho :: string

definition analisar_pasta :: "sa \<Rightarrow> caminho \<Rightarrow> info_pasta" where
  "analisar_pasta fs caminho_pasta =
     (let arquivos = arquivos_abaixo fs caminho_pasta casa_tudo
      in \<lparr>ip_total_arquivos = length arquivos,
          ip_tamanho_mb = arredondar_mb (sum_list (map (\<lambda>e. tamanho (snd e)) arquivos)),
          ip_caminho = str_caminho caminho_pasta\<rparr>)"

text \<open>\<^verbatim>\<open>parte.split('=')[1]\<close>: an \<^verbatim>\<open>IndexError\<close> when there is no \<^verbatim>\<open>=\<close>.\<close>

definition apos_igual :: "string \<Rightarrow> erro + string" where
  "apos_igual s = (case separar (CHR ''='') s of a # b # r \<Rightarrow> Inr b | _ \<Rightarrow> Inl IndexError)"

text \<open>
  The loop over the parts of one path in \<^verbatim>\<open>_analisar_endpoint\<close>; the state is the pair
  of the sets \<^verbatim>\<open>lojas_unicas\<close> and \<^verbatim>\<open>datas_disponiveis\<close>.
\<close>

fun para_cada :: "('a \<Rightarrow> 's \<Rightarrow> erro option \<times> 's) \<Rightarrow> 'a list \<Rightarrow> 's \<Rightarrow> erro option \<times> 's" where
  "para_cada f [] st = (None, st)"
| "para_cada f (x # xs) st =
     (case f x st of
        (Some e, st') \<Rightarrow> (Some e, st')
      | (None, st') \<Rightarrow> para_cada f xs st')"

definition extrair_parte ::
  "caminho \<Rightarrow> string \<Rightarrow> string list \<times> string list \<Rightarrow> erro option \<times> string list \<times> string list" where
  "extrair_parte partes_caminho parte st =
     (if startswith parte ''loja='' then
        (case apos_igual parte of
           Inl e \<Rightarrow> (Some e, st)
         | Inr loja \<Rightarrow> (None, (List.insert loja (fst st), snd st)))
      else if startswith parte ''ano='' then
        (case apos_igual parte of
           Inl e \<Rightarrow> (Some e, st)
         | Inr ano \<Rightarrow>
             (let idx = length (takeWhile (\<lambda>x. x \<noteq> parte) partes_caminho)
              in if idx + 2 < length partes_caminho then
                   (case apos_igual (partes_caminho ! (idx + 1)) of
                      Inl e \<Rightarrow> (Some e, st)
                    | Inr mes \<Rightarrow>
                        (case apos_igual (partes_caminho ! (idx + 2)) of
                           Inl e \<Rightarrow> (Some e, st)
                         | Inr dia \<Rightarrow>
                             (None, (fst st, List.insert (ano @ ''-'' @ mes @ ''-'' @ dia) (snd st)))))
                 else (None, st)))
      else (None, st))"

record info_endpoint =
  ie_total_arquivos :: nat
  ie_lojas_unicas :: "string list"
  ie_datas_disponiveis :: "string list"
  ie_tamanho_mb :: nat

definition analisar_endpoint :: "sa \<Rightarrow> caminho \<Rightarrow> erro + info_endpoint" where
  "analisar_endpoint fs caminho_endpoint =
     (let arquivos = arquivos_abaixo fs caminho_endpoint casa_json
      in case para_cada (\<lambda>arquivo. para_cada (extrair_parte (fst arquivo)) (fst arquivo))
                arquivos ([], []) of
           (Some e, st) \<Rightarrow> Inl e
         | (None, st) \<Rightarrow>
             Inr \<lparr>ie_total_arquivos = length arquivos,
                  ie_lojas_unicas = sort (fst st),
                  ie_datas_disponiveis = sort (snd st),
                  ie_tamanho_mb = arredondar_mb (sum_list (map (\<lambda>e. tamanho (snd e)) arquivos))\<rparr>)"

text \<open>
  The report of \<^verbatim>\<open>obter_estatisticas_data_lake\<close>. The field \<^verbatim>\<open>tamanho_total_mb\<close>, a
  floating-point sum of rounded values, and the constant \<^verbatim>\<open>periodo_dados\<close> are left out.
\<close>

record estatisticas =
  es_timestamp_calculo :: string
  es_estrutura_pastas :: "(string \<times> info_pasta) list"
  es_total_arquivos :: nat
  es_endpoints :: "(string \<times> info_endpoint) list"

definition analisar_endpoints ::
  "sa \<Rightarrow> caminho \<times> no \<Rightarrow> (string \<times> info_endpoint) list
     \<Rightarrow> erro option \<times> (string \<times> info_endpoint) list" where
  "analisar_endpoints fs pasta_endpoint endpoints =
     (if is_dir fs (fst pasta_endpoint) then
        (case analisar_endpoint fs (fst pasta_endpoint) of
           Inl e \<Rightarrow> (Some e, endpoints)
         | Inr info \<Rightarrow> (None, dict_set endpoints (nome (fst pasta_endpoint)) info))
      else (None, endpoints))"

definition analisar_zona ::
  "caminho \<Rightarrow> sa \<Rightarrow> string \<times> string \<Rightarrow> estatisticas \<Rightarrow> erro option \<times> estatisticas" where
  "analisar_zona base fs zona est =
     (let caminho_pasta = barra base (snd zona)
      in if existe fs caminho_pasta then
           (let est1 = est\<lparr>es_estrutura_pastas :=
                   dict_set (es_estrutura_pastas est) (snd zona) (analisar_pasta fs caminho_pasta)\<rparr>
            in if fst zona = ''raw'' then
                 (case iterdir fs caminho_pasta of
                    Inl e \<Rightarrow> (Some e, est1)
                  | Inr entradas \<Rightarrow>
                      (case para_cada (analisar_endpoints fs) entradas (es_endpoints est1) of
                         (erro, endpoints) \<Rightarrow> (erro, est1\<lparr>es_endpoints := endpoints\<rparr>)))
               else (None, est1))
         else (None, est))"

definition obter_estatisticas_data_lake :: "datetime \<Rightarrow> caminho \<Rightarrow> sa \<Rightarrow> erro + estatisticas" where
  "obter_estatisticas_data_lake agora base fs =
     (case para_cada (analisar_zona base fs) estrutura_pastas
             \<lparr>es_timestamp_calculo = isoformat agora, es_estrutura_pastas = [],
              es_total_arquivos = 0, es_endpoints = []\<rparr> of
        (Some e, est) \<Rightarrow> Inl e
      | (None, est) \<Rightarrow>
          Inr (est\<lparr>es_total_arquivos :=
                 sum_list (map (\<lambda>info. ip_total_arquivos (snd info)) (es_estrutura_pastas est))\<rparr>))"

section \<open>The data lake manager: retention\<close>

text \<open>
  \<^verbatim>\<open>int(s)\<close> for a string: surrounding white space, an optional sign, and decimal
  digits with single underscores between them.
\<close>

definition eh_espaco :: "char \<Rightarrow> bool" where
  "eh_espaco c \<longleftrightarrow>
     (of_char c :: nat) \<in> {9, 10, 11, 12, 13, 28, 29, 30, 31, 32, 133, 160}"

definition eh_digito :: "char \<Rightarrow> bool" where
  "eh_digito c \<longleftrightarrow> 48 \<le> (of_char c :: nat) \<and> (of_char c :: nat) \<le> 57"

definition valor_digitos :: "string \<Rightarrow> int" where
  "valor_digitos ds = foldl (\<lambda>a c. 10 * a + (int (of_char c) - 48)) 0 ds"

definition py_int_sem_sinal :: "string \<Rightarrow> int option" where
  "py_int_sem_sinal s =
     (let grupos = separar (CHR ''_'') s
      in if \<forall>g \<in> set grupos. g \<noteq> [] \<and> (\<forall>c \<in> set g. eh_digito c)
         then Some (valor_digitos (concat grupos)) else None)"

definition py_int :: "string \<Rightarrow> int option" where
  "py_int s0 =
     (let s = rev (dropWhile eh_espaco (rev (dropWhile eh_espaco s0)))
      in case s of
           [] \<Rightarrow> None
         | c # r \<Rightarrow>
             if c = CHR ''-'' then map_option uminus (py_int_sem_sinal r)
             else if c = CHR ''+'' then py_int_sem_sinal r
             else py_int_sem_sinal s)"

text \<open>\<^verbatim>\<open>int(pasta.name.split('=')[1])\<close>.\<close>

definition numero_da_pasta :: "caminho \<Rightarrow> erro + int" where
  "numero_da_pasta pasta =
     (case apos_igual (nome pasta) of
        Inl e \<Rightarrow> Inl e
      | Inr texto \<Rightarrow> (case py_int texto of None \<Rightarrow> Inl ValueError | Some i \<Rightarrow> Inr i))"

text \<open>
  The state of the walk of \<^verbatim>\<open>limpar_dados_antigos\<close>: the file system, the two counters
  and the directories warned about.
\<close>

record limpeza =
  lz_fs :: sa
  lz_arquivos_removidos :: nat
  lz_tamanho_liberado :: nat
  lz_avisos :: "caminho list"

definition limpar_dia :: "date \<Rightarrow> int \<Rightarrow> int \<Rightarrow> caminho \<Rightarrow> limpeza \<Rightarrow> erro option \<times> limpeza" where
  "limpar_dia data_corte ano mes pasta_dia st =
     (case numero_da_pasta pasta_dia of
        Inl e \<Rightarrow> (Some e, st)
      | Inr dia \<Rightarrow>
          (case nova_data ano mes dia of
             Inl e \<Rightarrow> (None, st\<lparr>lz_avisos := lz_avisos st @ [pasta_dia]\<rparr>)
           | Inr data_pasta \<Rightarrow>
               if data_pasta < data_corte then
                 (let arquivos = arquivos_abaixo (lz_fs st) pasta_dia casa_tudo;
                      st1 = st\<lparr>lz_tamanho_liberado :=
                                 lz_tamanho_liberado st
                                   + sum_list (map (\<lambda>e. tamanho (snd e)) arquivos),
                               lz_arquivos_removidos :=
                                 lz_arquivos_removidos st + length arquivos\<rparr>
                  in case rmtree (lz_fs st1) pasta_dia of
                       Inl e \<Rightarrow> (Some e, st1)
                     | Inr fs' \<Rightarrow> (None, st1\<lparr>lz_fs := fs'\<rparr>))
               else (None, st)))"

definition limpar_mes :: "date \<Rightarrow> int \<Rightarrow> caminho \<Rightarrow> limpeza \<Rightarrow> erro option \<times> limpeza" where
  "limpar_mes data_corte ano pasta_mes st =
     (case numero_da_pasta pasta_mes of
        Inl e \<Rightarrow> (Some e, st)
      | Inr mes \<Rightarrow>
          para_cada (limpar_dia data_corte ano mes)
            (map fst (glob (lz_fs st) pasta_mes (\<lambda>n. startswith n ''dia=''))) st)"

definition limpar_ano :: "date \<Rightarrow> caminho \<Rightarrow> limpeza \<Rightarrow> erro option \<times> limpeza" where
  "limpar_ano data_corte pasta_ano st =
     (case numero_da_pasta pasta_ano of
        Inl e \<Rightarrow> (Some e, st)
      | Inr ano \<Rightarrow>
          para_cada (limpar_mes data_corte ano)
            (map fst (glob (lz_fs st) pasta_ano (\<lambda>n. startswith n ''mes=''))) st)"

definition limpar_endpoint :: "date \<Rightarrow> caminho \<Rightarrow> limpeza \<Rightarrow> erro option \<times> limpeza" where
  "limpar_endpoint data_corte pasta_endpoint st =
     (if is_dir (lz_fs st) pasta_endpoint then
        para_cada (limpar_ano data_corte)
          (map fst (glob (lz_fs st) pasta_endpoint (\<lambda>n. startswith n ''ano=''))) st
      else (None, st))"

record relatorio_limpeza =
  rl_arquivos_removidos :: nat
  rl_tamanho_liberado_mb :: nat
  rl_data_corte :: string

text \<open>
  \<^verbatim>\<open>limpar_dados_antigos\<close>, with today's date \<open>hoje\<close>. The result is the report or the
  exception raised, the file system left behind, and the warnings logged.
\<close>

definition limpar_dados_antigos ::
  "caminho \<Rightarrow> sa \<Rightarrow> date \<Rightarrow> int \<Rightarrow> (erro + relatorio_limpeza) \<times> sa \<times> caminho list" where
  "limpar_dados_antigos base fs hoje dias_retencao =
     (case mais_dias hoje (- dias_retencao) of
        Inl e \<Rightarrow> (Inl e, fs, [])
      | Inr data_corte \<Rightarrow>
          (case iterdir fs (barra base (pasta_de ''raw'')) of
             Inl e \<Rightarrow> (Inl e, fs, [])
           | Inr entradas \<Rightarrow>
               (case para_cada (limpar_endpoint data_corte) (map fst entradas)
                       \<lparr>lz_fs = fs, lz_arquivos_removidos = 0, lz_tamanho_liberado = 0,
                        lz_avisos = []\<rparr> of
                  (Some e, st) \<Rightarrow> (Inl e, lz_fs st, lz_avisos st)
                | (None, st) \<Rightarrow>
                    (Inr \<lparr>rl_arquivos_removidos = lz_arquivos_removidos st,
                          rl_tamanho_liberado_mb = arredondar_mb (lz_tamanho_liberado st),
                          rl_data_corte = isoformat_data data_corte\<rparr>,
                     lz_fs st, lz_avisos st))))"

section \<open>Names that are one path component\<close>

text \<open>
  A string without separator (and without the NUL character, which no system call
  accepts) stays one part when it is joined to a path; \<open>componente\<close> moreover excludes
  the strings that \<^verbatim>\<open>pathlib\<close> or the system treat specially.
\<close>

definition sem_barra :: "string \<Rightarrow> bool" where
  "sem_barra s \<longleftrightarrow> CHR ''/'' \<notin> set s \<and> CHR 0x00 \<notin> set s"

definition componente :: "string \<Rightarrow> bool" where
  "componente s \<longleftrightarrow> s \<noteq> [] \<and> s \<noteq> ''.'' \<and> s \<noteq> ''..'' \<and> sem_barra s"

text \<open>The sidecar file of \<^verbatim>\<open>_salvar_metadados\<close> for the record file \<open>caminho_arquivo\<close>.\<close>

definition arquivo_metadados_de :: "caminho \<Rightarrow> string \<Rightarrow> caminho \<Rightarrow> caminho" where
  "arquivo_metadados_de base endpoint caminho_arquivo =
     barra (barra (barra base (pasta_de ''metadata'')) endpoint)
       (''meta_'' @ stem caminho_arquivo @ ''.json'')"

text \<open>The document written by \<^verbatim>\<open>armazenar_resposta_api\<close>.\<close>

definition dados_completos_de ::
  "(string \<Rightarrow> string) \<Rightarrow> datetime \<Rightarrow> string \<Rightarrow> json \<Rightarrow> date \<Rightarrow> string
     \<Rightarrow> (string \<times> json) list option \<Rightarrow> json" where
  "dados_completos_de md5 agora endpoint dados data_negocio id_loja metadados_adicionais =
     JObj [(''metadados'',
            JObj (metadados_de md5 agora endpoint dados data_negocio id_loja metadados_adicionais)),
           (''dados'', dados)]"

text \<open>
  The first part of \<^verbatim>\<open>armazenar_resposta_api\<close>, up to and including the writing of the
  record file in the raw zone; what follows it is the call of \<^verbatim>\<open>_salvar_metadados\<close>.
\<close>

definition gravar_bruto ::
  "(string \<Rightarrow> string) \<Rightarrow> datetime \<Rightarrow> caminho \<Rightarrow> sa \<Rightarrow> string \<Rightarrow> json \<Rightarrow> date \<Rightarrow> string
     \<Rightarrow> (string \<times> json) list option \<Rightarrow> (erro + caminho) \<times> sa" where
  "gravar_bruto md5 agora base fs endpoint dados data_negocio id_loja metadados_adicionais =
     (case mkdir_p fs (caminho_particao_de base endpoint data_negocio id_loja) of
        Inl e \<Rightarrow> (Inl e, fs)
      | Inr fs1 \<Rightarrow>
          (case json_dump fs1 (caminho_arquivo_de agora base endpoint data_negocio id_loja)
                  (dados_completos_de md5 agora endpoint dados data_negocio id_loja
                     metadados_adicionais) of
             Inl e \<Rightarrow> (Inl e, fs1)
           | Inr fs2 \<Rightarrow>
               (Inr (caminho_arquivo_de agora base endpoint data_negocio id_loja), fs2)))"

text \<open>The files of a file system, with their contents.\<close>

definition arquivos_de :: "sa \<Rightarrow> (caminho \<times> no) list" where
  "arquivos_de fs = filter (\<lambda>e. eh_arquivo (snd e)) fs"

text \<open>The field \<open>k\<close> of a record.\<close>

fun campo :: "json \<Rightarrow> string \<Rightarrow> json option" where
  "campo (JObj kvs) k = map_of kvs k"
| "campo v k = None"

section \<open>The directory layout in the words of the specification\<close>

text \<open>
  The layout as the specification writes it:
  \<^verbatim>\<open><base>/<zone_dir>/<endpoint>/year=<YYYY>/month=<MM>/day=<DD>/store=<store_id>/\<close>
  \<^verbatim>\<open><endpoint>_<store_id>_<YYYYMMDD_HHMMSS>.json\<close>, with the six zone names it lists.
\<close>

definition zonas_spec :: "string list" where
  "zonas_spec = [''raw'', ''processed'', ''schemas'', ''metadata'', ''archive'', ''temp'']"

definition layout_spec ::
  "string \<Rightarrow> string \<Rightarrow> string \<Rightarrow> string \<Rightarrow> string \<Rightarrow> string \<Rightarrow> string \<Rightarrow> string \<Rightarrow> string" where
  "layout_spec base zone_dir endpoint yyyy mm dd store_id yyyymmdd_hhmmss =
     base @ ''/'' @ zone_dir @ ''/'' @ endpoint @ ''/year='' @ yyyy @ ''/month='' @ mm
     @ ''/day='' @ dd @ ''/store='' @ store_id @ ''/'' @ endpoint @ ''_'' @ store_id @ ''_''
     @ yyyymmdd_hhmmss @ ''.json''"

section \<open>Example states\<close>

text \<open>
  A raw zone whose endpoint \<^verbatim>\<open>e\<close> holds a directory \<^verbatim>\<open>ano=abc\<close> and, after it, a
  partition of 2020-01-01 with one file of 100 bytes.
\<close>

definition fs_ano_invalido :: sa where
  "fs_ano_invalido =
     [([''b''], Pasta), ([''b'', ''dados_brutos''], Pasta),
      ([''b'', ''dados_brutos'', ''e''], Pasta),
      ([''b'', ''dados_brutos'', ''e'', ''ano=abc''], Pasta),
      ([''b'', ''dados_brutos'', ''e'', ''ano=2020''], Pasta),
      ([''b'', ''dados_brutos'', ''e'', ''ano=2020'', ''mes=01''], Pasta),
      ([''b'', ''dados_brutos'', ''e'', ''ano=2020'', ''mes=01'', ''dia=01''], Pasta),
      ([''b'', ''dados_brutos'', ''e'', ''ano=2020'', ''mes=01'', ''dia=01'', ''f.json''],
       Arquivo Ilegivel 100)]"

text \<open>A clock reading, a stand-in for the digest, and a payload.\<close>

definition agora_ex :: datetime where
  "agora_ex = \<lparr>dt_ano = 2024, dt_mes = 1, dt_dia = 15, dt_hora = 10, dt_minuto = 30,
                dt_segundo = 0, dt_micro = 0\<rparr>"

definition resumo_ex :: "string \<Rightarrow> string" where
  "resumo_ex s = ''0''"

definition dados_ex :: json where
  "dados_ex = JObj [(''guestCheckId'', JStr ''test-123'')]"

text \<open>A lake with one record in the partition of 9999-12-31, the last date there is.\<close>

definition fs_ultimo_dia :: sa where
  "fs_ultimo_dia =
     [([''b''], Pasta), ([''b'', ''dados_brutos''], Pasta),
      ([''b'', ''dados_brutos'', ''e''], Pasta),
      ([''b'', ''dados_brutos'', ''e'', ''ano=9999''], Pasta),
      ([''b'', ''dados_brutos'', ''e'', ''ano=9999'', ''mes=12''], Pasta),
      ([''b'', ''dados_brutos'', ''e'', ''ano=9999'', ''mes=12'', ''dia=31''], Pasta),
      ([''b'', ''dados_brutos'', ''e'', ''ano=9999'', ''mes=12'', ''dia=31'', ''loja=s''], Pasta),
      ([''b'', ''dados_brutos'', ''e'', ''ano=9999'', ''mes=12'', ''dia=31'', ''loja=s'', ''r.json''],
       Arquivo (TextoJson (JObj [(''dados'', JInt 1)])) 14)]"

text \<open>
  A lake where a file stands in the place of the directory \<^verbatim>\<open>metadados/e\<close>; a base
  path that is a file; and a lake that already holds a file with the name of the record
  that a store of \<open>agora_ex\<close> writes.
\<close>

definition fs_meta_bloqueada :: sa where
  "fs_meta_bloqueada =
     [([''b''], Pasta), ([''b'', ''metadados''], Pasta),
      ([''b'', ''metadados'', ''e''], Arquivo Ilegivel 0)]"

definition fs_base_arquivo :: sa where
  "fs_base_arquivo = [([''b''], Arquivo Ilegivel 0)]"

definition fs_colisao :: sa where
  "fs_colisao =
     [([''b''], Pasta), ([''b'', ''dados_brutos''], Pasta),
      ([''b'', ''dados_brutos'', ''e''], Pasta),
      ([''b'', ''dados_brutos'', ''e'', ''ano=2024''], Pasta),
      ([''b'', ''dados_brutos'', ''e'', ''ano=2024'', ''mes=01''], Pasta),
      ([''b'', ''dados_brutos'', ''e'', ''ano=2024'', ''mes=01'', ''dia=15''], Pasta),
      ([''b'', ''dados_brutos'', ''e'', ''ano=2024'', ''mes=01'', ''dia=15'', ''loja=s''], Pasta),
      ([''b'', ''dados_brutos'', ''e'', ''ano=2024'', ''mes=01'', ''dia=15'', ''loja=s'',
        ''e_s_20240115_103000.json''],
       Arquivo (TextoJson (JObj [(''dados'', JStr ''first'')])) 24)]"

text \<open>The record file that a store of \<open>agora_ex\<close> for \<^verbatim>\<open>e\<close>, \<^verbatim>\<open>s\<close> and 2024-01-15 writes.\<close>

definition registro_ex :: caminho where
  "registro_ex =
     [''b'', ''dados_brutos'', ''e'', ''ano=2024'', ''mes=01'', ''dia=15'', ''loja=s'',
      ''e_s_20240115_103000.json'']"

section \<open>Properties\<close>

subsection \<open>Paths of the partitions\<close>

lemma separar_sem: "c \<notin> set s \<Longrightarrow> separar c s = [s]"
  by (induction s) auto

lemma raiz_de_sem: "CHR ''/'' \<notin> set s \<Longrightarrow> raiz_de s = []"
  by (cases s) (auto simp: raiz_de_def startswith_def)

lemma partes_um: "s \<noteq> [] \<Longrightarrow> s \<noteq> ''.'' \<Longrightarrow> CHR ''/'' \<notin> set s \<Longrightarrow> partes s = [s]"
  by (simp add: partes_def raiz_de_sem separar_sem)

lemma barra_um: "s \<noteq> [] \<Longrightarrow> s \<noteq> ''.'' \<Longrightarrow> CHR ''/'' \<notin> set s \<Longrightarrow> barra p s = p @ [s]"
  by (simp add: barra_def raiz_de_sem partes_um)

lemma digito_em: "k < 10 \<Longrightarrow> ''0123456789'' ! k \<in> set ''0123456789''"
  by (rule nth_mem) simp

lemma set_digitos: "set (digitos n) \<subseteq> set ''0123456789''"
proof (induction n rule: digitos.induct)
  case (1 n)
  show ?case
  proof (cases "n < 10")
    case True
    then show ?thesis using digito_em[of n] by (subst digitos.simps) simp
  next
    case False
    have "n mod 10 < 10" by simp
    then have "''0123456789'' ! (n mod 10) \<in> set ''0123456789''" by (rule digito_em)
    with 1[OF False] False show ?thesis by (subst digitos.simps) simp
  qed
qed

lemma digitos_nao_vazio: "digitos n \<noteq> []"
  by (subst digitos.simps) simp

lemma set_preencher: "set (preencher w n) \<subseteq> set ''0123456789''"
  using set_digitos[of n] by (auto simp: preencher_def)

lemma sem_barra_digitos: "CHR ''/'' \<notin> set (digitos n)"
  using set_digitos[of n] by auto

lemma sem_barra_preencher: "CHR ''/'' \<notin> set (preencher w n)"
  using set_preencher[of w n] by auto

lemma sem_barra_carimbo: "CHR ''/'' \<notin> set (carimbo t)"
  by (simp add: carimbo_def sem_barra_preencher)

lemma pasta_raw: "pasta_de ''raw'' = ''dados_brutos''"
  by (simp add: pasta_de_def estrutura_pastas_def)

lemma pasta_metadata: "pasta_de ''metadata'' = ''metadados''"
  by (simp add: pasta_de_def estrutura_pastas_def)

lemma particao_dia_partes:
  "componente ep \<Longrightarrow>
   particao_dia base ep d =
     base @ [''dados_brutos'', ep, ''ano='' @ digitos (ano_de d),
             ''mes='' @ preencher 2 (mes_de d), ''dia='' @ preencher 2 (dia_de d)]"
  by (simp add: particao_dia_def pasta_raw barra_um componente_def sem_barra_def
      sem_barra_digitos sem_barra_preencher)

lemma caminho_particao_partes:
  "componente ep \<Longrightarrow> sem_barra il \<Longrightarrow>
   caminho_particao_de base ep d il = particao_dia base ep d @ [''loja='' @ il]"
  by (simp add: caminho_particao_de_def barra_um sem_barra_def)

lemma caminho_arquivo_partes:
  "componente ep \<Longrightarrow> sem_barra il \<Longrightarrow>
   caminho_arquivo_de agora base ep d il =
     caminho_particao_de base ep d il @ [ep @ ''_'' @ il @ ''_'' @ carimbo agora @ ''.json'']"
  by (simp add: caminho_arquivo_de_def barra_um sem_barra_def componente_def sem_barra_carimbo
      append_eq_Cons_conv)

lemma juntar_snoc: "xs \<noteq> [] \<Longrightarrow> juntar sep (xs @ [x]) = juntar sep xs @ sep @ x"
  by (induction sep xs rule: juntar.induct) simp_all

lemma str_caminho_snoc: "\<not> eh_raiz p \<Longrightarrow> str_caminho (p @ [x]) = str_caminho p @ ''/'' @ x"
proof (cases p)
  case Nil
  assume "\<not> eh_raiz p"
  with Nil show ?thesis by (simp add: eh_raiz_def)
next
  case (Cons r rest)
  assume nr: "\<not> eh_raiz p"
  show ?thesis
  proof (cases "tem_raiz p")
    case True
    with Cons nr have "rest \<noteq> []" by (auto simp: eh_raiz_def tem_raiz_def)
    with Cons True show ?thesis
      by (simp add: str_caminho_def tem_raiz_def juntar_snoc)
  next
    case False
    with Cons juntar_snoc[of "r # rest" "''/''" x] show ?thesis
      by (simp add: str_caminho_def tem_raiz_def)
  qed
qed

lemma eh_raiz_snoc: "\<not> eh_raiz p \<Longrightarrow> \<not> eh_raiz (p @ [x])"
  by (cases p) (auto simp: eh_raiz_def)

lemma str_caminho_append:
  "\<not> eh_raiz p \<Longrightarrow> str_caminho (p @ xs) = str_caminho p @ concat (map (\<lambda>x. ''/'' @ x) xs)"
proof (induction xs arbitrary: p)
  case Nil
  then show ?case by simp
next
  case (Cons x xs)
  from Cons.prems have "\<not> eh_raiz (p @ [x])" by (rule eh_raiz_snoc)
  from Cons.IH[OF this] Cons.prems show ?case by (simp add: str_caminho_snoc)
qed

subsection \<open>The loop over the days of a query\<close>

lemma fst_foldl_mais: "fst (foldl mais acc xs) = fst acc @ concat (map fst xs)"
  by (induction xs arbitrary: acc) (simp_all add: mais_def)

lemma snd_foldl_mais: "snd (foldl mais acc xs) = snd acc @ concat (map snd xs)"
  by (induction xs arbitrary: acc) (simp_all add: mais_def)

lemma buscar_laco_intervalo:
  "0 < d \<Longrightarrow> df < MAXORDINAL \<Longrightarrow>
   buscar_laco base fs ep il df d acc = Inr (foldl mais acc (map (ler_dia base fs ep il) [d..df]))"
proof (induction base fs ep il df d acc rule: buscar_laco.induct)
  case (1 base fs ep il df d acc)
  show ?case
  proof (cases "d \<le> df")
    case False
    then show ?thesis by (simp add: buscar_laco.simps)
  next
    case True
    with 1(2,3) have m: "mais_dias d 1 = Inr (d + 1)"
      by (simp add: mais_dias_def)
    have "buscar_laco base fs ep il df (d + 1) (mais acc (ler_dia base fs ep il d)) =
          Inr (foldl mais (mais acc (ler_dia base fs ep il d)) (map (ler_dia base fs ep il) [d + 1..df]))"
      using 1(1)[OF True m] 1(2,3) by simp
    moreover have "[d..df] = d # [d + 1..df]"
      using True by (simp add: upto_rec1)
    ultimately show ?thesis
      using True m by (simp add: buscar_laco.simps)
  qed
qed

lemma buscar_laco_vazio: "df < d \<Longrightarrow> buscar_laco base fs ep il df d acc = Inr acc"
  by (simp add: buscar_laco.simps)

lemma buscar_laco_ultimo_dia:
  "d \<le> MAXORDINAL \<Longrightarrow> buscar_laco base fs ep il MAXORDINAL d acc = Inl OverflowError"
proof (induction base fs ep il "MAXORDINAL" d acc rule: buscar_laco.induct)
  case (1 base fs ep il d acc)
  show ?case
  proof (cases "d = MAXORDINAL")
    case True
    then show ?thesis by (simp add: buscar_laco.simps mais_dias_def MAXORDINAL_def)
  next
    case False
    show ?thesis
    proof (cases "0 < d + 1")
      case True
      with False 1(2) have m: "mais_dias d 1 = Inr (d + 1)"
        by (simp add: mais_dias_def)
      from 1(1)[OF 1(2) m] False 1(2) m show ?thesis
        by (simp add: buscar_laco.simps)
    next
      case False
      then have "mais_dias d 1 = Inl OverflowError" by (simp add: mais_dias_def)
      with 1(2) show ?thesis by (simp add: buscar_laco.simps)
    qed
  qed
qed

subsection \<open>Creating directories and writing files\<close>

lemma no_em_append: "no_em fs p = Some x \<Longrightarrow> no_em (fs @ ds) p = Some x"
  by (auto simp: no_em_def map_add_Some_iff split: if_splits)

lemma is_dir_append: "is_dir fs p \<Longrightarrow> is_dir (fs @ ds) p"
  by (simp add: is_dir_def no_em_append)

lemma criar_pastas_acrescenta:
  "criar_pastas fs pre cs = Inr fs' \<Longrightarrow> \<exists>ds. fs' = fs @ ds \<and> (\<forall>e \<in> set ds. snd e = Pasta)"
proof (induction cs arbitrary: fs pre)
  case Nil
  then show ?case by simp
next
  case (Cons c cs)
  show ?case
  proof (cases "no_em fs (pre @ [c])")
    case None
    with Cons.prems have "criar_pastas (fs @ [(pre @ [c], Pasta)]) (pre @ [c]) cs = Inr fs'"
      by simp
    from Cons.IH[OF this] obtain ds where
      "fs' = (fs @ [(pre @ [c], Pasta)]) @ ds" "\<forall>e \<in> set ds. snd e = Pasta" by blast
    then have "fs' = fs @ ((pre @ [c], Pasta) # ds) \<and> (\<forall>e \<in> set ((pre @ [c], Pasta) # ds). snd e = Pasta)"
      by simp
    then show ?thesis by blast
  next
    case (Some x)
    with Cons.prems have "criar_pastas fs (pre @ [c]) cs = Inr fs'"
      by (cases x) (simp_all split: if_splits)
    from Cons.IH[OF this] show ?thesis .
  qed
qed

lemma no_em_novo: "\<not> eh_raiz p \<Longrightarrow> no_em fs p = None \<Longrightarrow> no_em (fs @ [(p, x)]) p = Some x"
  by (simp add: no_em_def map_add_Some_iff)

lemma criar_pastas_dir:
  "criar_pastas fs pre cs = Inr fs' \<Longrightarrow> 0 < k \<Longrightarrow> k \<le> length cs \<Longrightarrow>
   is_dir fs' (pre @ take k cs)"
proof (induction cs arbitrary: fs pre k)
  case Nil
  then show ?case by simp
next
  case (Cons c cs)
  obtain fs1 where fs1: "criar_pastas fs1 (pre @ [c]) cs = Inr fs'" "is_dir fs1 (pre @ [c])"
  proof (cases "no_em fs (pre @ [c])")
    case None
    then have nr: "\<not> eh_raiz (pre @ [c])" by (auto simp: no_em_def split: if_splits)
    from None Cons.prems(1) have "criar_pastas (fs @ [(pre @ [c], Pasta)]) (pre @ [c]) cs = Inr fs'"
      by simp
    moreover have "is_dir (fs @ [(pre @ [c], Pasta)]) (pre @ [c])"
      unfolding is_dir_def using no_em_novo[OF nr None] by simp
    ultimately show ?thesis using that by blast
  next
    case (Some x)
    with Cons.prems(1) have "criar_pastas fs (pre @ [c]) cs = Inr fs'" "x = Pasta"
      by (cases x; simp split: if_splits)+
    with Some show ?thesis using that by (simp add: is_dir_def)
  qed
  show ?case
  proof (cases k)
    case 0
    with Cons.prems show ?thesis by simp
  next
    case (Suc j)
    show ?thesis
    proof (cases "j = 0")
      case True
      from criar_pastas_acrescenta[OF fs1(1)] obtain ds where "fs' = fs1 @ ds" by blast
      with fs1(2) have "is_dir fs' (pre @ [c])" by (simp add: is_dir_append)
      with Suc True show ?thesis by simp
    next
      case False
      with Suc Cons.prems have "0 < j" "j \<le> length cs" by simp_all
      from Cons.IH[OF fs1(1) this] Suc show ?thesis by simp
    qed
  qed
qed

lemma mkdir_p_dir: "mkdir_p fs p = Inr fs' \<Longrightarrow> 0 < k \<Longrightarrow> k \<le> length p \<Longrightarrow> is_dir fs' (take k p)"
  using criar_pastas_dir[of fs "[]" p fs' k] by (simp add: mkdir_p_def)

lemma mkdir_p_acrescenta:
  "mkdir_p fs p = Inr fs' \<Longrightarrow> \<exists>ds. fs' = fs @ ds \<and> (\<forall>e \<in> set ds. snd e = Pasta)"
  unfolding mkdir_p_def by (rule criar_pastas_acrescenta)

lemma mkdir_p_no_em: "mkdir_p fs p = Inr fs' \<Longrightarrow> no_em fs q = Some x \<Longrightarrow> no_em fs' q = Some x"
  using mkdir_p_acrescenta[of fs p fs'] by (auto simp: no_em_append)

lemma mkdir_p_arquivos:
  "mkdir_p fs p = Inr fs' \<Longrightarrow>
   filter (\<lambda>e. eh_arquivo (snd e)) fs' = filter (\<lambda>e. eh_arquivo (snd e)) fs"
proof -
  assume "mkdir_p fs p = Inr fs'"
  from mkdir_p_acrescenta[OF this] obtain ds where
    d: "fs' = fs @ ds" "\<forall>e \<in> set ds. snd e = Pasta" by blast
  then have "filter (\<lambda>e. eh_arquivo (snd e)) ds = []"
    by (auto simp: filter_empty_conv)
  with d show ?thesis by simp
qed

lemma map_of_troca:
  "map_of (map (\<lambda>e. if fst e = p then (p, x) else e) fs) q =
     (if q = p then (if map_of fs p = None then None else Some x) else map_of fs q)"
  by (induction fs) auto

lemma escrever_raiz: "escrever fs p c n = Inr fs' \<Longrightarrow> \<not> eh_raiz p"
  by (auto simp: escrever_def no_em_def split: option.splits no.splits if_splits)

lemma escrever_no_em: "escrever fs p c n = Inr fs' \<Longrightarrow> no_em fs' p = Some (Arquivo c n)"
proof -
  assume a: "escrever fs p c n = Inr fs'"
  then have nr: "\<not> eh_raiz p" by (rule escrever_raiz)
  show ?thesis
  proof (cases "no_em fs p")
    case None
    with a have "fs' = fs @ [(p, Arquivo c n)]"
      by (auto simp: escrever_def split: option.splits)
    with no_em_novo[OF nr None] show ?thesis by simp
  next
    case (Some x)
    with a have f: "fs' = map (\<lambda>e. if fst e = p then (p, Arquivo c n) else e) fs"
      by (cases x) (auto simp: escrever_def split: option.splits)
    from Some nr have "map_of fs p \<noteq> None"
      by (auto simp: no_em_def)
    with f nr show ?thesis by (simp add: no_em_def map_of_troca)
  qed
qed

lemma escrever_outros: "escrever fs p c n = Inr fs' \<Longrightarrow> q \<noteq> p \<Longrightarrow> no_em fs' q = no_em fs q"
proof -
  assume a: "escrever fs p c n = Inr fs'" and q: "q \<noteq> p"
  show ?thesis
  proof (cases "no_em fs p")
    case None
    with a have f: "fs' = fs @ [(p, Arquivo c n)]"
      by (auto simp: escrever_def split: option.splits)
    show ?thesis unfolding f using q by (auto simp: no_em_def map_add_def split: option.splits)
  next
    case (Some x)
    with a have f: "fs' = map (\<lambda>e. if fst e = p then (p, Arquivo c n) else e) fs"
      by (cases x) (auto simp: escrever_def split: option.splits)
    show ?thesis unfolding f using q by (simp add: no_em_def map_of_troca)
  qed
qed

lemma escrever_is_dir: "escrever fs p c n = Inr fs' \<Longrightarrow> is_dir fs q \<Longrightarrow> is_dir fs' q"
proof -
  assume a: "escrever fs p c n = Inr fs'" and d: "is_dir fs q"
  have "q \<noteq> p"
  proof
    assume "q = p"
    with d have "no_em fs p = Some Pasta" by (simp add: is_dir_def)
    with a show False by (auto simp: escrever_def split: option.splits)
  qed
  with escrever_outros[OF a this] d show ?thesis by (simp add: is_dir_def)
qed

lemma ler_entradas_contem:
  "e \<in> set es \<Longrightarrow> ler_arquivo e = Inr r \<Longrightarrow> r \<in> set (fst (ler_entradas es))"
  by (induction es) (auto split: sum.splits)

lemma no_em_em: "no_em fs p = Some x \<Longrightarrow> \<not> eh_raiz p \<Longrightarrow> (p, x) \<in> set fs"
  by (auto simp: no_em_def dest: map_of_SomeD)

subsection \<open>What a successful store leaves behind\<close>

lemma armazenar_sucesso:
  assumes "armazenar_resposta_api md5 agora base fs ep dados d il extra = (Inr s, fs3)"
  shows "\<exists>fs1 fs2.
           mkdir_p fs (caminho_particao_de base ep d il) = Inr fs1 \<and>
           json_dump fs1 (caminho_arquivo_de agora base ep d il)
             (dados_completos_de md5 agora ep dados d il extra) = Inr fs2 \<and>
           salvar_metadados base fs2 ep (metadados_de md5 agora ep dados d il extra)
             (caminho_arquivo_de agora base ep d il) = (None, fs3) \<and>
           s = str_caminho (caminho_arquivo_de agora base ep d il)"
  using assms
  by (auto simp: armazenar_resposta_api_def dados_completos_de_def Let_def
      split: sum.splits option.splits prod.splits)

lemma salvar_metadados_outros:
  assumes "salvar_metadados base fs ep md ca = (r, fs')"
      and "no_em fs q = Some x" and "q \<noteq> arquivo_metadados_de base ep ca"
  shows "no_em fs' q = Some x"
proof (cases "mkdir_p fs (barra (barra base (pasta_de ''metadata'')) ep)")
  case (Inl e)
  with assms(1) have "fs' = fs" by (simp add: salvar_metadados_def)
  with assms(2) show ?thesis by simp
next
  case (Inr fs1)
  from mkdir_p_no_em[OF Inr assms(2)] have q1: "no_em fs1 q = Some x" .
  let ?m = "arquivo_metadados_de base ep ca"
  let ?doc = "JObj (dict_set (dict_set md ''caminho_arquivo'' (JStr (str_caminho ca)))
                      ''nome_arquivo'' (JStr (nome ca)))"
  show ?thesis
  proof (cases "json_dump fs1 ?m ?doc")
    case (Inl e)
    with Inr assms(1) have "fs' = fs1"
      by (simp add: salvar_metadados_def arquivo_metadados_de_def Let_def)
    with q1 show ?thesis by simp
  next
    case (Inr fs2)
    with \<open>mkdir_p fs _ = Inr fs1\<close> assms(1) have "fs' = fs2"
      by (simp add: salvar_metadados_def arquivo_metadados_de_def Let_def)
    moreover from Inr have "escrever fs1 ?m (TextoJson ?doc) (tam_utf8 (dump_indent 0 ?doc)) = Inr fs2"
      by (simp add: json_dump_def)
    from escrever_outros[OF this assms(3)] q1 have "no_em fs2 q = Some x" by simp
    ultimately show ?thesis by simp
  qed
qed

lemma stem_subconjunto: "set (stem p) \<subseteq> set (nome p)"
  by (auto simp: stem_def split: option.splits dest: in_set_takeD)

lemma nome_ultimo: "CHR ''/'' \<notin> set x \<Longrightarrow> nome (p @ [x]) = x"
  by (cases p) (auto simp: nome_def tem_raiz_def)

lemma arquivo_metadados_partes:
  assumes "componente ep" "CHR ''/'' \<notin> set n"
  shows "arquivo_metadados_de base ep (p @ [n]) = base @ [''metadados'', ep, ''meta_'' @ stem (p @ [n]) @ ''.json'']"
proof -
  have "CHR ''/'' \<notin> set (stem (p @ [n]))"
    using stem_subconjunto[of "p @ [n]"] assms(2) by (auto simp: nome_ultimo)
  with assms(1) show ?thesis
    by (simp add: arquivo_metadados_de_def pasta_metadata barra_um componente_def sem_barra_def)
qed

lemma ler_dia_loja:
  assumes "componente ep" "sem_barra il"
      and "is_dir fs (particao_dia base ep d)"
      and "is_dir fs (caminho_particao_de base ep d il)"
      and "no_em fs (caminho_particao_de base ep d il @ [n]) = Some (Arquivo (TextoJson (JObj kvs)) k)"
      and "casa_json n"
  shows "JObj (dict_set kvs ''_caminho_arquivo'' (JStr (str_caminho (caminho_particao_de base ep d il @ [n]))))
           \<in> set (fst (ler_dia base fs ep (Some il) d))"
proof -
  let ?P = "caminho_particao_de base ep d il"
  let ?F = "?P @ [n]"
  let ?r = "JObj (dict_set kvs ''_caminho_arquivo'' (JStr (str_caminho ?F)))"
  have nr: "\<not> eh_raiz ?F" by (auto simp: eh_raiz_def caminho_particao_partes[OF assms(1,2)])
  from no_em_em[OF assms(5) nr] have e: "(?F, Arquivo (TextoJson (JObj kvs)) k) \<in> set fs" .
  then have "(?F, Arquivo (TextoJson (JObj kvs)) k) \<in> set (glob fs ?P casa_json)"
    using assms(4,6) by (simp add: glob_def)
  from ler_entradas_contem[OF this] have r: "?r \<in> set (fst (ler_arquivos_pasta fs ?P))"
    by (simp add: ler_arquivos_pasta_def)
  have ex: "existe fs (particao_dia base ep d)" "existe fs ?P"
    using assms(3,4) by (simp_all add: existe_def is_dir_def)
  show ?thesis
  proof (cases "il = []")
    case False
    with r ex show ?thesis
      by (simp add: ler_dia_def Let_def caminho_particao_de_def)
  next
    case True
    have nrP: "\<not> eh_raiz ?P" by (auto simp: eh_raiz_def caminho_particao_partes[OF assms(1,2)])
    from assms(4) have "no_em fs ?P = Some Pasta" by (simp add: is_dir_def)
    from no_em_em[OF this nrP] have "(?P, Pasta) \<in> set fs" .
    then have "(?P, Pasta) \<in> set (glob fs (particao_dia base ep d) (\<lambda>n. startswith n ''loja=''))"
      using assms(3) by (simp add: glob_def caminho_particao_partes[OF assms(1,2)] startswith_def)
    then have "?r \<in> set (concat (map fst (map (\<lambda>pasta_loja. ler_arquivos_pasta fs (fst pasta_loja))
                 (glob fs (particao_dia base ep d) (\<lambda>n. startswith n ''loja='')))))"
      using r by (auto intro!: bexI[of _ "(?P, Pasta)"])
    with True ex show ?thesis
      by (simp add: ler_dia_def Let_def fst_foldl_mais)
  qed
qed

lemma armazenar_grava:
  assumes ep: "componente ep" and il: "sem_barra il"
      and st: "armazenar_resposta_api md5 agora base fs ep dados d il extra = (Inr s, fs')"
  shows "is_dir fs' (particao_dia base ep d)"
    and "is_dir fs' (caminho_particao_de base ep d il)"
    and "no_em fs' (caminho_arquivo_de agora base ep d il) =
           Some (Arquivo (TextoJson (dados_completos_de md5 agora ep dados d il extra))
                   (tam_utf8 (dump_indent 0 (dados_completos_de md5 agora ep dados d il extra))))"
proof -
  let ?D = "particao_dia base ep d"
  let ?P = "caminho_particao_de base ep d il"
  let ?F = "caminho_arquivo_de agora base ep d il"
  let ?n = "ep @ ''_'' @ il @ ''_'' @ carimbo agora @ ''.json''"
  let ?dc = "dados_completos_de md5 agora ep dados d il extra"
  let ?M = "arquivo_metadados_de base ep ?F"
  from armazenar_sucesso[OF st] obtain fs1 fs2 where
    mk: "mkdir_p fs ?P = Inr fs1" and
    jd: "json_dump fs1 ?F ?dc = Inr fs2" and
    sm: "salvar_metadados base fs2 ep (metadados_de md5 agora ep dados d il extra) ?F = (None, fs')"
    by blast
  have P: "?P = ?D @ [''loja='' @ il]" by (rule caminho_particao_partes[OF ep il])
  have F: "?F = ?P @ [?n]" by (rule caminho_arquivo_partes[OF ep il])
  have D: "?D = base @ [''dados_brutos'', ep, ''ano='' @ digitos (ano_de d),
             ''mes='' @ preencher 2 (mes_de d), ''dia='' @ preencher 2 (dia_de d)]"
    by (rule particao_dia_partes[OF ep])
  have n: "CHR ''/'' \<notin> set ?n"
    using ep il by (simp add: componente_def sem_barra_def sem_barra_carimbo)
  have M: "?M = base @ [''metadados'', ep, ''meta_'' @ stem ?F @ ''.json'']"
    unfolding F by (rule arquivo_metadados_partes[OF ep n])
  have neq: "?D \<noteq> ?M" "?P \<noteq> ?M" "?F \<noteq> ?M"
    unfolding M by (simp_all add: F P D)
  have "is_dir fs1 (take (length ?P) ?P)"
    by (rule mkdir_p_dir[OF mk]) (simp_all add: P)
  then have P1: "is_dir fs1 ?P" by simp
  have "is_dir fs1 (take (length ?D) ?P)"
    by (rule mkdir_p_dir[OF mk]) (simp_all add: P D)
  then have D1: "is_dir fs1 ?D" by (simp add: P)
  from jd have es: "escrever fs1 ?F (TextoJson ?dc) (tam_utf8 (dump_indent 0 ?dc)) = Inr fs2"
    by (simp add: json_dump_def)
  from escrever_is_dir[OF es P1] have P2: "no_em fs2 ?P = Some Pasta" by (simp add: is_dir_def)
  from escrever_is_dir[OF es D1] have D2: "no_em fs2 ?D = Some Pasta" by (simp add: is_dir_def)
  from escrever_no_em[OF es]
  have F2: "no_em fs2 ?F = Some (Arquivo (TextoJson ?dc) (tam_utf8 (dump_indent 0 ?dc)))" .
  from salvar_metadados_outros[OF sm D2 neq(1)] show "is_dir fs' ?D" by (simp add: is_dir_def)
  from salvar_metadados_outros[OF sm P2 neq(2)] show "is_dir fs' ?P" by (simp add: is_dir_def)
  from salvar_metadados_outros[OF sm F2 neq(3)]
  show "no_em fs' ?F = Some (Arquivo (TextoJson ?dc) (tam_utf8 (dump_indent 0 ?dc)))" .
qed

lemma armazenar_em_partes:
  "armazenar_resposta_api md5 agora base fs ep dados d il extra =
     (case gravar_bruto md5 agora base fs ep dados d il extra of
        (Inl e, fs1) \<Rightarrow> (Inl e, fs1)
      | (Inr ca, fs2) \<Rightarrow>
          (case salvar_metadados base fs2 ep (metadados_de md5 agora ep dados d il extra) ca of
             (Some e, fs3) \<Rightarrow> (Inl e, fs3)
           | (None, fs3) \<Rightarrow> (Inr (str_caminho ca), fs3)))"
  by (simp add: armazenar_resposta_api_def gravar_bruto_def dados_completos_de_def Let_def
      split: sum.splits)

lemma gravar_bruto_falha:
  assumes "gravar_bruto md5 agora base fs ep dados d il extra = (Inl e, fs1)"
  shows "arquivos_de fs1 = arquivos_de fs"
proof (cases "mkdir_p fs (caminho_particao_de base ep d il)")
  case (Inl e')
  with assms show ?thesis by (simp add: gravar_bruto_def)
next
  case (Inr fs')
  with assms have "fs1 = fs'" by (simp add: gravar_bruto_def split: sum.splits)
  with mkdir_p_arquivos[OF Inr] show ?thesis by (simp add: arquivos_de_def)
qed

lemma gravar_bruto_sucesso:
  assumes "gravar_bruto md5 agora base fs ep dados d il extra = (Inr ca, fs2)"
  shows "ca = caminho_arquivo_de agora base ep d il"
    and "no_em fs2 ca = Some (Arquivo (TextoJson (dados_completos_de md5 agora ep dados d il extra))
                               (tam_utf8 (dump_indent 0 (dados_completos_de md5 agora ep dados d il extra))))"
proof -
  let ?F = "caminho_arquivo_de agora base ep d il"
  let ?dc = "dados_completos_de md5 agora ep dados d il extra"
  obtain fs1 where mk: "mkdir_p fs (caminho_particao_de base ep d il) = Inr fs1"
  proof (cases "mkdir_p fs (caminho_particao_de base ep d il)")
    case (Inl e)
    with assms show ?thesis by (simp add: gravar_bruto_def)
  next
    case (Inr fs1)
    then show ?thesis by (rule that)
  qed
  have jd: "json_dump fs1 ?F ?dc = Inr fs2" and ca: "ca = ?F"
  proof -
    show "json_dump fs1 ?F ?dc = Inr fs2"
    proof (cases "json_dump fs1 ?F ?dc")
      case (Inl e)
      with assms mk show ?thesis by (simp add: gravar_bruto_def)
    next
      case (Inr x)
      with assms mk show ?thesis by (simp add: gravar_bruto_def)
    qed
    then show "ca = ?F" using assms mk by (simp add: gravar_bruto_def)
  qed
  from jd have "escrever fs1 ?F (TextoJson ?dc) (tam_utf8 (dump_indent 0 ?dc)) = Inr fs2"
    by (simp only: json_dump_def)
  from escrever_no_em[OF this] ca
  show "ca = ?F"
    and "no_em fs2 ca = Some (Arquivo (TextoJson ?dc) (tam_utf8 (dump_indent 0 ?dc)))"
    by simp_all
qed

lemma registro_nao_e_sidecar:
  assumes ep: "componente ep" and il: "sem_barra il"
  shows "caminho_arquivo_de agora base ep d il
           \<noteq> arquivo_metadados_de base ep (caminho_arquivo_de agora base ep d il)"
proof -
  let ?n = "ep @ ''_'' @ il @ ''_'' @ carimbo agora @ ''.json''"
  have n: "CHR ''/'' \<notin> set ?n"
    using ep il by (simp add: componente_def sem_barra_def sem_barra_carimbo)
  have F: "caminho_arquivo_de agora base ep d il = caminho_particao_de base ep d il @ [?n]"
    by (rule caminho_arquivo_partes[OF ep il])
  show ?thesis
    unfolding F arquivo_metadados_partes[OF ep n]
    by (simp add: caminho_particao_partes[OF ep il] particao_dia_partes[OF ep])
qed

lemma barra_meta:
  "CHR ''/'' \<notin> set (nome p) \<Longrightarrow>
   barra q (''meta_'' @ stem p @ ''.json'') = q @ [''meta_'' @ stem p @ ''.json'']"
  using stem_subconjunto[of p] by (intro barra_um) auto

lemma armazenar_em_vazio:
  assumes ep: "componente ep" and il: "sem_barra il" and b: "componente b"
  shows "fst (armazenar_resposta_api md5 agora [b] [] ep dados d il extra) =
           Inr (str_caminho (caminho_arquivo_de agora [b] ep d il))"
proof -
  have Md: "barra (barra [b] (pasta_de ''metadata'')) ep = [b, ''metadados'', ep]"
    using ep by (simp add: pasta_metadata barra_um componente_def sem_barra_def)
  have br: "b \<noteq> ''/''" "b \<noteq> ''//''" "CHR ''/'' \<notin> set ep" "CHR ''/'' \<notin> set il"
    using b ep il by (auto simp: componente_def sem_barra_def)
  show ?thesis
    using br
    by (simp add: armazenar_resposta_api_def Let_def caminho_arquivo_partes[OF ep il] Md
        caminho_particao_partes[OF ep il] particao_dia_partes[OF ep] barra_meta[simplified] nome_def
        tem_raiz_def sem_barra_carimbo
        mkdir_p_def no_em_def eh_raiz_def json_dump_def escrever_def salvar_metadados_def
        del: dump_indent.simps)
qed

subsection \<open>The examples, evaluated\<close>

lemma ord2ymd_ex: "ord2ymd 738900 = (2024, 1, 15)"
  by (simp add: ord2ymd_def Let_def DAYS_BEFORE_MONTH_def DAYS_IN_MONTH_def)

lemma data_ex: "ano_de 738900 = 2024" "mes_de 738900 = 1" "dia_de 738900 = 15"
  by (simp_all add: ano_de_def mes_de_def dia_de_def ord2ymd_ex)

lemma digitos_ex: "digitos 2024 = ''2024''" "preencher 2 (Suc 0) = ''01''" "preencher 2 15 = ''15''"
  "preencher 4 2024 = ''2024''" "preencher 2 10 = ''10''" "preencher 2 30 = ''30''" "preencher 2 0 = ''00''"
  by (simp_all add: preencher_def digitos.simps)

lemma carimbo_ex: "carimbo agora_ex = ''20240115_103000''"
  by (simp add: carimbo_def agora_ex_def digitos_ex)

lemma componente_e: "componente ''e''" "sem_barra ''s''"
  by (simp_all add: componente_def sem_barra_def)

lemma componente_b: "componente ''b''"
  by (simp add: componente_def sem_barra_def)

lemma ord2ymd_max: "ord2ymd 3652059 = (9999, 12, 31)"
  by (simp add: ord2ymd_def Let_def DAYS_BEFORE_MONTH_def DAYS_IN_MONTH_def)

lemma data_max: "ano_de 3652059 = 9999" "mes_de 3652059 = 12" "dia_de 3652059 = 31"
  by (simp_all add: ano_de_def mes_de_def dia_de_def ord2ymd_max)

lemma ord2ymd_um: "ord2ymd 1 = (1, 1, 1)"
  by (simp add: ord2ymd_def Let_def DAYS_BEFORE_MONTH_def DAYS_IN_MONTH_def)

lemma data_um: "ano_de 1 = Suc 0" "mes_de 1 = Suc 0" "dia_de 1 = Suc 0"
  by (simp_all add: ano_de_def mes_de_def dia_de_def ord2ymd_um)

lemma digitos_ex2: "digitos 9999 = ''9999''" "preencher 2 12 = ''12''" "preencher 2 31 = ''31''"
  "digitos (Suc 0) = ''1''"
  by (simp_all add: preencher_def digitos.simps)

lemma str_ex:
  "str_caminho (caminho_arquivo_de agora_ex [''b''] ''e'' 738900 ''s'') =
     ''b/dados_brutos/e/ano=2024/mes=01/dia=15/loja=s/e_s_20240115_103000.json''"
  "str_caminho (caminho_arquivo_de agora_ex [''b''] ''e'' 3652059 ''s'') =
     ''b/dados_brutos/e/ano=9999/mes=12/dia=31/loja=s/e_s_20240115_103000.json''"
  "str_caminho (caminho_arquivo_de agora_ex [''b''] ''e'' 1 ''s'') =
     ''b/dados_brutos/e/ano=1/mes=01/dia=01/loja=s/e_s_20240115_103000.json''"
  by (simp_all add: caminho_arquivo_partes caminho_particao_partes particao_dia_partes
      componente_e data_ex data_max data_um digitos_ex digitos_ex2 carimbo_ex str_caminho_def
      tem_raiz_def)

lemma armazenar_com_barra:
  "fst (armazenar_resposta_api md5 agora_ex [''b''] [] ''a/b'' dados 738900 ''s'' extra) =
     Inl FileNotFoundError"
  by (simp add: armazenar_resposta_api_def caminho_arquivo_de_def caminho_particao_de_def
      particao_dia_def barra_def partes_def raiz_de_def startswith_def pasta_raw
      data_ex digitos_ex carimbo_ex Let_def mkdir_p_def no_em_def eh_raiz_def
      json_dump_def escrever_def del: dump_indent.simps)

lemma caminhos_ex:
  "caminho_particao_de [''b''] ''e'' 738900 ''s'' =
     [''b'', ''dados_brutos'', ''e'', ''ano=2024'', ''mes=01'', ''dia=15'', ''loja=s'']"
  "caminho_arquivo_de agora_ex [''b''] ''e'' 738900 ''s'' = registro_ex"
  by (simp_all add: caminho_arquivo_partes caminho_particao_partes particao_dia_partes
      componente_e data_ex digitos_ex carimbo_ex registro_ex_def)

lemma gravar_bruto_meta_bloqueada:
  "gravar_bruto md5 agora_ex [''b''] fs_meta_bloqueada ''e'' dados 738900 ''s'' extra =
     (Inr registro_ex,
      fs_meta_bloqueada @
      [([''b'', ''dados_brutos''], Pasta),
       ([''b'', ''dados_brutos'', ''e''], Pasta),
       ([''b'', ''dados_brutos'', ''e'', ''ano=2024''], Pasta),
       ([''b'', ''dados_brutos'', ''e'', ''ano=2024'', ''mes=01''], Pasta),
       ([''b'', ''dados_brutos'', ''e'', ''ano=2024'', ''mes=01'', ''dia=15''], Pasta),
       ([''b'', ''dados_brutos'', ''e'', ''ano=2024'', ''mes=01'', ''dia=15'', ''loja=s''], Pasta),
       (registro_ex,
        Arquivo (TextoJson (dados_completos_de md5 agora_ex ''e'' dados 738900 ''s'' extra))
          (tam_utf8 (dump_indent 0 (dados_completos_de md5 agora_ex ''e'' dados 738900 ''s'' extra))))])"
  by (simp add: gravar_bruto_def caminhos_ex mkdir_p_def no_em_def eh_raiz_def
      fs_meta_bloqueada_def json_dump_def escrever_def registro_ex_def)

lemma salvar_metadados_meta_bloqueada:
  "fst (salvar_metadados [''b''] (fs_meta_bloqueada @ ds) ''e'' md registro_ex) = Some FileExistsError"
  by (simp add: salvar_metadados_def pasta_metadata barra_um mkdir_p_def no_em_def eh_raiz_def
      fs_meta_bloqueada_def)

lemma gravar_bruto_base_arquivo:
  "gravar_bruto md5 agora_ex [''b''] fs_base_arquivo ''e'' dados 738900 ''s'' extra =
     (Inl NotADirectoryError, fs_base_arquivo)"
  by (simp add: gravar_bruto_def caminhos_ex mkdir_p_def no_em_def eh_raiz_def fs_base_arquivo_def)

lemma armazenar_colisao:
  "fst (armazenar_resposta_api md5 agora_ex [''b''] fs_colisao ''e'' dados 738900 ''s'' extra) =
     Inr ''b/dados_brutos/e/ano=2024/mes=01/dia=15/loja=s/e_s_20240115_103000.json''"
  by (simp add: armazenar_em_partes gravar_bruto_def caminhos_ex mkdir_p_def no_em_def eh_raiz_def
      fs_colisao_def json_dump_def escrever_def salvar_metadados_def barra_meta[simplified]
      nome_def pasta_metadata barra_um registro_ex_def str_caminho_def tem_raiz_def Let_def
      del: dump_indent.simps)

subsection \<open>Storing: round trip and layout\<close>

text \<open>
  Claim C1 (round trip). As stated, for every endpoint, business date and store id, the
  claim fails in two ways, shown by \<open>armazenar_depois_buscar_counterexample\<close>: an endpoint
  with a separator is split by \<^verbatim>\<open>pathlib\<close> and the store raises, and a query whose
  range ends on 9999-12-31 raises \<^verbatim>\<open>OverflowError\<close> when the loop steps past the last
  day. What holds: for an endpoint that is one path component and a store id without
  separator, whenever the store returns, every query for that endpoint and store id
  over a range of valid dates that contains the business date and ends before
  9999-12-31 returns a record whose field \<^verbatim>\<open>dados\<close> is the payload.
\<close>

theorem armazenar_depois_buscar:
  assumes ep: "componente endpoint" and il: "sem_barra id_loja"
      and st: "armazenar_resposta_api md5 agora base fs endpoint dados data_negocio id_loja extra
                 = (Inr s, fs')"
      and d1: "0 < data_inicio" and d2: "data_inicio \<le> data_negocio"
      and d3: "data_negocio \<le> data_fim" and d4: "data_fim < MAXORDINAL"
  shows "\<exists>registros avisos.
           buscar_dados base fs' endpoint data_inicio data_fim (Some id_loja)
             = Inr (registros, avisos) \<and>
           (\<exists>r \<in> set registros. campo r ''dados'' = Some dados)"
proof -
  let ?P = "caminho_particao_de base endpoint data_negocio id_loja"
  let ?n = "endpoint @ ''_'' @ id_loja @ ''_'' @ carimbo agora @ ''.json''"
  let ?kvs = "[(''metadados'',
                JObj (metadados_de md5 agora endpoint dados data_negocio id_loja extra)),
               (''dados'', dados)]"
  let ?r = "JObj (dict_set ?kvs ''_caminho_arquivo'' (JStr (str_caminho (?P @ [?n]))))"
  let ?dias = "map (ler_dia base fs' endpoint (Some id_loja)) [data_inicio..data_fim]"
  from armazenar_grava[OF ep il st] obtain k where
    g: "is_dir fs' (particao_dia base endpoint data_negocio)" "is_dir fs' ?P"
       "no_em fs' (?P @ [?n]) = Some (Arquivo (TextoJson (JObj ?kvs)) k)"
    by (auto simp: caminho_arquivo_partes[OF ep il] dados_completos_de_def)
  have "casa_json ?n" by (simp add: casa_json_def endswith_def)
  from ler_dia_loja[OF ep il g this]
  have "?r \<in> set (fst (ler_dia base fs' endpoint (Some id_loja) data_negocio))" .
  moreover have "data_negocio \<in> set [data_inicio..data_fim]" using d2 d3 by simp
  ultimately have "?r \<in> set (concat (map fst ?dias))" by auto
  moreover have "campo ?r ''dados'' = Some dados" by (simp add: dict_set_def)
  moreover have "buscar_dados base fs' endpoint data_inicio data_fim (Some id_loja)
                   = Inr (concat (map fst ?dias), concat (map snd ?dias))"
    using buscar_laco_intervalo[OF d1 d4, of base fs' endpoint "Some id_loja" "([], [])"]
    by (simp add: buscar_dados_def prod_eq_iff fst_foldl_mais snd_foldl_mais)
  ultimately show ?thesis by blast
qed

text \<open>The round trip on the empty file system, for the endpoint \<^verbatim>\<open>e\<close> and the store \<^verbatim>\<open>s\<close>.\<close>

theorem armazenar_depois_buscar_witness:
  "componente ''e'' \<and> sem_barra ''s'' \<and>
   fst (armazenar_resposta_api resumo_ex agora_ex [''b''] [] ''e'' dados_ex 738900 ''s'' None) =
     Inr ''b/dados_brutos/e/ano=2024/mes=01/dia=15/loja=s/e_s_20240115_103000.json'' \<and>
   (\<exists>registros avisos.
      buscar_dados [''b'']
        (snd (armazenar_resposta_api resumo_ex agora_ex [''b''] [] ''e'' dados_ex 738900 ''s'' None))
        ''e'' 738900 738900 (Some ''s'') = Inr (registros, avisos) \<and>
      (\<exists>r \<in> set registros. campo r ''dados'' = Some dados_ex))"
proof -
  let ?a = "armazenar_resposta_api resumo_ex agora_ex [''b''] [] ''e'' dados_ex 738900 ''s'' None"
  have f: "fst ?a = Inr ''b/dados_brutos/e/ano=2024/mes=01/dia=15/loja=s/e_s_20240115_103000.json''"
    using armazenar_em_vazio[OF componente_e componente_b] by (simp add: str_ex)
  then have st: "?a = (Inr ''b/dados_brutos/e/ano=2024/mes=01/dia=15/loja=s/e_s_20240115_103000.json'', snd ?a)"
    by (simp add: prod_eq_iff)
  from armazenar_depois_buscar[OF componente_e st, of 738900 738900] f componente_e
  show ?thesis by (simp add: MAXORDINAL_def)
qed

text \<open>
  The endpoint \<^verbatim>\<open>a/b\<close> makes the store raise; and a payload stored under 9999-12-31
  cannot be read back, the query for that day raises.
\<close>

theorem armazenar_depois_buscar_counterexample:
  "fst (armazenar_resposta_api resumo_ex agora_ex [''b''] [] ''a/b'' dados_ex 738900 ''s'' None) =
     Inl FileNotFoundError \<and>
   fst (armazenar_resposta_api resumo_ex agora_ex [''b''] [] ''e'' dados_ex 3652059 ''s'' None) =
     Inr ''b/dados_brutos/e/ano=9999/mes=12/dia=31/loja=s/e_s_20240115_103000.json'' \<and>
   buscar_dados [''b'']
     (snd (armazenar_resposta_api resumo_ex agora_ex [''b''] [] ''e'' dados_ex 3652059 ''s'' None))
     ''e'' 3652059 3652059 (Some ''s'') = Inl OverflowError"
  using armazenar_em_vazio[OF componente_e componente_b, of resumo_ex agora_ex dados_ex 3652059 None]
    buscar_laco_ultimo_dia[of 3652059]
  by (simp add: armazenar_com_barra str_ex buscar_dados_def MAXORDINAL_def)

text \<open>
  Claim C2 (directory layout). The code writes Portuguese names: the raw zone is the
  directory \<^verbatim>\<open>dados_brutos\<close> and the partition keys are \<^verbatim>\<open>ano=\<close>, \<^verbatim>\<open>mes=\<close>, \<^verbatim>\<open>dia=\<close>
  and \<^verbatim>\<open>loja=\<close>; the year is written without padding. For an endpoint that is one path
  component, a store id without separator and a base path that is not a root, a store
  that returns gives the path below, the record file is at that path, and the six zone
  directories are \<^verbatim>\<open>dados_brutos\<close>, \<^verbatim>\<open>dados_processados\<close>, \<^verbatim>\<open>esquemas\<close>, \<^verbatim>\<open>metadados\<close>,
  \<^verbatim>\<open>arquivo\<close> and \<^verbatim>\<open>temporario\<close>.
\<close>

theorem caminho_do_registro:
  assumes ep: "componente endpoint" and il: "sem_barra id_loja" and b: "\<not> eh_raiz base"
      and st: "armazenar_resposta_api md5 agora base fs endpoint dados data_negocio id_loja extra
                 = (Inr s, fs')"
  shows "s = str_caminho base @ ''/dados_brutos/'' @ endpoint
             @ ''/ano='' @ digitos (ano_de data_negocio)
             @ ''/mes='' @ preencher 2 (mes_de data_negocio)
             @ ''/dia='' @ preencher 2 (dia_de data_negocio)
             @ ''/loja='' @ id_loja
             @ ''/'' @ endpoint @ ''_'' @ id_loja @ ''_'' @ carimbo agora @ ''.json''
         \<and> (\<exists>k. no_em fs'
                 (base @ [''dados_brutos'', endpoint, ''ano='' @ digitos (ano_de data_negocio),
                          ''mes='' @ preencher 2 (mes_de data_negocio),
                          ''dia='' @ preencher 2 (dia_de data_negocio), ''loja='' @ id_loja,
                          endpoint @ ''_'' @ id_loja @ ''_'' @ carimbo agora @ ''.json''])
               = Some (Arquivo (TextoJson
                   (dados_completos_de md5 agora endpoint dados data_negocio id_loja extra)) k))
         \<and> map snd estrutura_pastas =
             [''dados_brutos'', ''dados_processados'', ''esquemas'', ''metadados'', ''arquivo'',
              ''temporario'']"
proof -
  let ?F = "caminho_arquivo_de agora base endpoint data_negocio id_loja"
  have F: "?F = base @ [''dados_brutos'', endpoint, ''ano='' @ digitos (ano_de data_negocio),
                 ''mes='' @ preencher 2 (mes_de data_negocio),
                 ''dia='' @ preencher 2 (dia_de data_negocio), ''loja='' @ id_loja,
                 endpoint @ ''_'' @ id_loja @ ''_'' @ carimbo agora @ ''.json'']"
    by (simp add: caminho_arquivo_partes[OF ep il] caminho_particao_partes[OF ep il]
        particao_dia_partes[OF ep])
  from armazenar_sucesso[OF st] have s: "s = str_caminho ?F" by blast
  have "str_caminho ?F = str_caminho base @ ''/dados_brutos/'' @ endpoint
             @ ''/ano='' @ digitos (ano_de data_negocio)
             @ ''/mes='' @ preencher 2 (mes_de data_negocio)
             @ ''/dia='' @ preencher 2 (dia_de data_negocio)
             @ ''/loja='' @ id_loja
             @ ''/'' @ endpoint @ ''_'' @ id_loja @ ''_'' @ carimbo agora @ ''.json''"
    unfolding F by (simp add: str_caminho_append[OF b])
  moreover from armazenar_grava(3)[OF ep il st] F
  have "\<exists>k. no_em fs'
                 (base @ [''dados_brutos'', endpoint, ''ano='' @ digitos (ano_de data_negocio),
                          ''mes='' @ preencher 2 (mes_de data_negocio),
                          ''dia='' @ preencher 2 (dia_de data_negocio), ''loja='' @ id_loja,
                          endpoint @ ''_'' @ id_loja @ ''_'' @ carimbo agora @ ''.json''])
               = Some (Arquivo (TextoJson
                   (dados_completos_de md5 agora endpoint dados data_negocio id_loja extra)) k)"
    by simp
  moreover have "map snd estrutura_pastas =
             [''dados_brutos'', ''dados_processados'', ''esquemas'', ''metadados'', ''arquivo'',
              ''temporario'']"
    by (simp add: estrutura_pastas_def)
  ultimately show ?thesis using s by simp
qed

text \<open>The layout for the endpoint \<^verbatim>\<open>e\<close>, the store \<^verbatim>\<open>s\<close> and 2024-01-15.\<close>

theorem caminho_do_registro_witness:
  "componente ''e'' \<and> sem_barra ''s'' \<and> \<not> eh_raiz [''b''] \<and>
   fst (armazenar_resposta_api resumo_ex agora_ex [''b''] [] ''e'' dados_ex 738900 ''s'' None) =
     Inr (''b'' @ ''/dados_brutos/'' @ ''e'' @ ''/ano='' @ ''2024'' @ ''/mes='' @ ''01''
          @ ''/dia='' @ ''15'' @ ''/loja='' @ ''s'' @ ''/'' @ ''e'' @ ''_'' @ ''s'' @ ''_''
          @ ''20240115_103000'' @ ''.json'')"
proof -
  let ?a = "armazenar_resposta_api resumo_ex agora_ex [''b''] [] ''e'' dados_ex 738900 ''s'' None"
  have f: "fst ?a = Inr (str_caminho (caminho_arquivo_de agora_ex [''b''] ''e'' 738900 ''s''))"
    by (rule armazenar_em_vazio[OF componente_e componente_b])
  then have st: "?a = (Inr (str_caminho (caminho_arquivo_de agora_ex [''b''] ''e'' 738900 ''s'')), snd ?a)"
    by (simp add: prod_eq_iff)
  have b: "\<not> eh_raiz [''b'']" by (simp add: eh_raiz_def)
  from caminho_do_registro[OF componente_e b st] f componente_e b
  show ?thesis
    by (simp add: data_ex digitos_ex carimbo_ex str_caminho_def tem_raiz_def)
qed

text \<open>
  The path returned is not the one of the specification's layout, the zone directories
  are not the zone names, and the year 1 is written \<^verbatim>\<open>ano=1\<close>.
\<close>

theorem caminho_do_registro_counterexample:
  "fst (armazenar_resposta_api resumo_ex agora_ex [''b''] [] ''e'' dados_ex 738900 ''s'' None) =
     Inr ''b/dados_brutos/e/ano=2024/mes=01/dia=15/loja=s/e_s_20240115_103000.json'' \<and>
   layout_spec ''b'' ''raw'' ''e'' ''2024'' ''01'' ''15'' ''s'' ''20240115_103000'' =
     ''b/raw/e/year=2024/month=01/day=15/store=s/e_s_20240115_103000.json'' \<and>
   ''b/dados_brutos/e/ano=2024/mes=01/dia=15/loja=s/e_s_20240115_103000.json'' \<noteq>
     layout_spec ''b'' ''raw'' ''e'' ''2024'' ''01'' ''15'' ''s'' ''20240115_103000'' \<and>
   map snd estrutura_pastas \<noteq> zonas_spec \<and>
   fst (armazenar_resposta_api resumo_ex agora_ex [''b''] [] ''e'' dados_ex 1 ''s'' None) =
     Inr ''b/dados_brutos/e/ano=1/mes=01/dia=01/loja=s/e_s_20240115_103000.json''"
  using armazenar_em_vazio[OF componente_e componente_b, of resumo_ex agora_ex dados_ex 738900 None]
    armazenar_em_vazio[OF componente_e componente_b, of resumo_ex agora_ex dados_ex 1 None]
  by (simp add: str_ex layout_spec_def estrutura_pastas_def zonas_spec_def)

subsection \<open>Storing: failures and collisions\<close>

text \<open>
  Claim C3 (a failure of the sidecar write leaves the store successful; a failure of the
  raw-zone write fails the whole operation and leaves no sidecar). The first half does
  not hold: \<^verbatim>\<open>_salvar_metadados\<close> is called inside the \<^verbatim>\<open>try\<close> whose handler logs and raises
  again, so its exception is the outcome of the store
  (\<open>armazenar_falhas_counterexample\<close>). What holds: when the record file has been written
  and the sidecar write fails, the store raises that exception and, for an endpoint
  that is one path component and a store id without separator, the record file stays in
  the raw zone; when the raw-zone write fails, the store raises and the files of the
  file system are those from before the call, so there is no sidecar from it.
\<close>

theorem armazenar_falhas:
  "(gravar_bruto md5 agora base fs endpoint dados data_negocio id_loja extra = (Inr ca, fs2) \<and>
    salvar_metadados base fs2 endpoint
      (metadados_de md5 agora endpoint dados data_negocio id_loja extra) ca = (Some e, fs3)
    \<longrightarrow>
      armazenar_resposta_api md5 agora base fs endpoint dados data_negocio id_loja extra
        = (Inl e, fs3) \<and>
      (componente endpoint \<and> sem_barra id_loja \<longrightarrow>
         no_em fs3 ca =
           Some (Arquivo
             (TextoJson (dados_completos_de md5 agora endpoint dados data_negocio id_loja extra))
             (tam_utf8 (dump_indent 0
                (dados_completos_de md5 agora endpoint dados data_negocio id_loja extra))))))
   \<and>
   (gravar_bruto md5 agora base fs endpoint dados data_negocio id_loja extra = (Inl e', fs1)
    \<longrightarrow>
      armazenar_resposta_api md5 agora base fs endpoint dados data_negocio id_loja extra
        = (Inl e', fs1) \<and>
      arquivos_de fs1 = arquivos_de fs)"
proof (intro conjI impI)
  assume a: "gravar_bruto md5 agora base fs endpoint dados data_negocio id_loja extra = (Inr ca, fs2) \<and>
    salvar_metadados base fs2 endpoint
      (metadados_de md5 agora endpoint dados data_negocio id_loja extra) ca = (Some e, fs3)"
  then show "armazenar_resposta_api md5 agora base fs endpoint dados data_negocio id_loja extra
        = (Inl e, fs3)"
    by (simp add: armazenar_em_partes)
  assume n: "componente endpoint \<and> sem_barra id_loja"
  from a have g: "gravar_bruto md5 agora base fs endpoint dados data_negocio id_loja extra = (Inr ca, fs2)"
    and s: "salvar_metadados base fs2 endpoint
      (metadados_de md5 agora endpoint dados data_negocio id_loja extra) ca = (Some e, fs3)"
    by simp_all
  from registro_nao_e_sidecar[of endpoint id_loja agora base data_negocio] n gravar_bruto_sucesso(1)[OF g]
  have "ca \<noteq> arquivo_metadados_de base endpoint ca" by simp
  from salvar_metadados_outros[OF s gravar_bruto_sucesso(2)[OF g] this]
  show "no_em fs3 ca =
           Some (Arquivo
             (TextoJson (dados_completos_de md5 agora endpoint dados data_negocio id_loja extra))
             (tam_utf8 (dump_indent 0
                (dados_completos_de md5 agora endpoint dados data_negocio id_loja extra))))" .
next
  assume a: "gravar_bruto md5 agora base fs endpoint dados data_negocio id_loja extra = (Inl e', fs1)"
  then show "armazenar_resposta_api md5 agora base fs endpoint dados data_negocio id_loja extra
        = (Inl e', fs1)"
    by (simp add: armazenar_em_partes)
  from gravar_bruto_falha[OF a] show "arquivos_de fs1 = arquivos_de fs" .
qed

subsection \<open>Querying\<close>

text \<open>
  Claim C7 (the query returns the records of every day of the inclusive range). The loop
  of \<^verbatim>\<open>buscar_dados\<close> adds one day to the current date after every round, also after
  the last one. For a range that ends on 9999-12-31 the round of the last day reads the
  record and the step that follows raises \<^verbatim>\<open>OverflowError\<close>: nothing is returned.
\<close>

theorem buscar_dados_estoura_no_ultimo_dia:
  "fst (ler_dia [''b''] fs_ultimo_dia ''e'' (Some ''s'') 3652059) =
     [JObj [(''dados'', JInt 1),
            (''_caminho_arquivo'',
             JStr ''b/dados_brutos/e/ano=9999/mes=12/dia=31/loja=s/r.json'')]] \<and>
   buscar_dados [''b''] fs_ultimo_dia ''e'' 3652059 3652059 (Some ''s'') = Inl OverflowError"
proof -
  have "buscar_dados [''b''] fs_ultimo_dia ''e'' 3652059 3652059 (Some ''s'') = Inl OverflowError"
    using buscar_laco_ultimo_dia[of 3652059] by (simp add: buscar_dados_def MAXORDINAL_def)
  moreover have "fst (ler_dia [''b''] fs_ultimo_dia ''e'' (Some ''s'') 3652059) =
     [JObj [(''dados'', JInt 1),
            (''_caminho_arquivo'',
             JStr ''b/dados_brutos/e/ano=9999/mes=12/dia=31/loja=s/r.json'')]]"
    by (simp add: ler_dia_def particao_dia_partes componente_e data_max digitos_ex2 Let_def
        existe_def no_em_def eh_raiz_def fs_ultimo_dia_def barra_um ler_arquivos_pasta_def
        glob_def is_dir_def casa_json_def endswith_def dict_set_def str_caminho_def tem_raiz_def)
  ultimately show ?thesis by simp
qed

subsection \<open>Retention\<close>

text \<open>
  Claim C8 (a raw-zone directory whose date segments do not parse is skipped with a
  warning and does not abort the cleanup). The conversions \<^verbatim>\<open>int(...)\<close> of the segments
  stand outside the \<^verbatim>\<open>try\<close> block that catches \<^verbatim>\<open>ValueError\<close>: on a directory
  \<^verbatim>\<open>ano=abc\<close> the walk raises \<^verbatim>\<open>ValueError\<close>, nothing is logged, and the partition of
  2020-01-01 that follows, older than the cutoff, is not removed.
\<close>

theorem limpar_aborta_em_segmento_nao_numerico:
  "limpar_dados_antigos [''b''] fs_ano_invalido 739000 90 = (Inl ValueError, fs_ano_invalido, [])"
  by code_simp

end
